theory Spec2Isabelle
  imports Complex_Main "HOL-Library.Multiset"
begin

section \<open>Python values\<close>

text \<open>
  A Python \<open>str\<close> is a sequence of Unicode code points, modelled as a list of
  naturals; \<open>bytes\<close> is a list of 8-bit characters. Python integers are \<open>int\<close>.
  Python floats (the rounded means and the median) are modelled by the rationals
  they approximate.
\<close>

type_synonym str = "nat list"

type_synonym bytes = "char list"

text \<open>The code points of an ASCII literal.\<close>

definition s2u :: "string \<Rightarrow> str" where
  "s2u s = map of_char s"

subsection \<open>collections.Counter\<close>

text \<open>
  A \<open>Counter\<close> is a dict: keys in insertion order, each with its count.
  \<open>counter_add c k n\<close> is \<open>c[k] = n + c.get(k, 0)\<close>: an existing key keeps its
  place, a new key goes last.
\<close>

type_synonym 'k counter = "('k \<times> int) list"

fun counter_add :: "'k counter \<Rightarrow> 'k \<Rightarrow> int \<Rightarrow> 'k counter" where
  "counter_add [] k n = [(k, n)]"
| "counter_add ((k', v) # c) k n =
     (if k' = k then (k', v + n) # c else (k', v) # counter_add c k n)"

definition counter_get :: "'k counter \<Rightarrow> 'k \<Rightarrow> int" where
  "counter_get c k = (case map_of c k of None \<Rightarrow> 0 | Some v \<Rightarrow> v)"

text \<open>\<open>Counter.update(other)\<close> for a mapping, and for an iterable of elements.\<close>

definition counter_update :: "'k counter \<Rightarrow> 'k counter \<Rightarrow> 'k counter" where
  "counter_update c other = foldl (\<lambda>acc kn. counter_add acc (fst kn) (snd kn)) c other"

definition counter_update_iter :: "'k counter \<Rightarrow> 'k list \<Rightarrow> 'k counter" where
  "counter_update_iter c ws = foldl (\<lambda>acc w. counter_add acc w 1) c ws"

section \<open>FileStats\<close>

text \<open>
  \<open>get_list_stats\<close>'s dict; \<open>stats_summary = {}\<close> is \<open>None\<close>.
\<close>

record summary =
  min_len :: int
  max_len :: int
  mean_len :: rat
  median_len :: rat

text \<open>
  The class \<open>FileStats\<close>. The fields \<open>count\<close> and \<open>size\<close> of the source are
  \<open>count_files\<close> and \<open>size_bytes\<close> here. \<open>skipped\<close> starts as the boolean \<open>False\<close>
  and is incremented by \<open>add\<close>; Python's \<open>bool\<close> is a subtype of \<open>int\<close> with
  \<open>False == 0\<close> and \<open>True == 1\<close>, so the field is an \<open>int\<close>, and its truth value is
  \<open>skipped \<noteq> 0\<close>. \<open>filepath\<close> and \<open>relpath\<close> are \<open>None\<close> for \<open>FileStats()\<close>.
\<close>

record FileStats =
  filepath :: "str option"
  relpath :: "str option"
  filename :: str
  count_files :: int
  size_bytes :: int
  disk_usage :: int
  char_count :: int
  char_count_no_space :: int
  line_count :: int
  word_counter :: "str counter"
  lines_lengths :: "int list"
  extensions :: "str counter"
  skipped :: int
  stats_summary :: "summary option"
  complexity_avg :: rat
  complexity_max :: int
  functions_count :: int

text \<open>\<open>FileStats.add\<close> (lines 143-159): \<open>self\<close> after \<open>self.add(other)\<close>.\<close>

definition FileStats_add :: "FileStats \<Rightarrow> FileStats \<Rightarrow> FileStats" where
  "FileStats_add self other =
     self\<lparr>count_files := count_files self + count_files other,
          size_bytes := size_bytes self + size_bytes other,
          disk_usage := disk_usage self + disk_usage other,
          char_count := char_count self + char_count other,
          char_count_no_space := char_count_no_space self + char_count_no_space other,
          line_count := line_count self + line_count other,
          word_counter := counter_update (word_counter self) (word_counter other),
          lines_lengths := lines_lengths self @ lines_lengths other,
          extensions := counter_update (extensions self) (extensions other),
          complexity_max :=
            (if complexity_max other > complexity_max self then complexity_max other
             else complexity_max self),
          skipped := (if skipped other \<noteq> 0 then skipped self + 1 else skipped self)\<rparr>"

section \<open>Strings\<close>

text \<open>Methods of \<open>str\<close> the program calls.\<close>

definition py_startswith :: "str \<Rightarrow> str \<Rightarrow> bool" where
  "py_startswith s p = (take (length p) s = p)"

definition py_endswith :: "str \<Rightarrow> str \<Rightarrow> bool" where
  "py_endswith s p = (length p \<le> length s \<and> drop (length s - length p) s = p)"

text \<open>\<open>s.rstrip('/')\<close>: every trailing separator goes.\<close>

definition py_rstrip :: "nat \<Rightarrow> str \<Rightarrow> str" where
  "py_rstrip c s = rev (dropWhile (\<lambda>x. x = c) (rev s))"

text \<open>
  The characters \<open>str.split()\<close>, \<open>str.strip()\<close> and \<open>str.isspace()\<close> take as
  whitespace: tab to carriage return, the separators 0x1C to 0x1F, the space, and the
  Unicode spaces beyond ASCII.
\<close>

definition is_space :: "nat \<Rightarrow> bool" where
  "is_space c = ((9 \<le> c \<and> c \<le> 13) \<or> (28 \<le> c \<and> c \<le> 32) \<or> c = 133 \<or> c = 160
     \<or> c = 5760 \<or> (8192 \<le> c \<and> c \<le> 8202) \<or> c = 8232 \<or> c = 8233 \<or> c = 8239
     \<or> c = 8287 \<or> c = 12288)"

definition py_strip :: "str \<Rightarrow> str" where
  "py_strip s = rev (dropWhile is_space (rev (dropWhile is_space s)))"

text \<open>\<open>s.split()\<close>: the maximal runs of characters that are not whitespace.\<close>

fun split_from :: "str \<Rightarrow> str \<Rightarrow> str list" where
  "split_from cur [] = (if cur = [] then [] else [cur])"
| "split_from cur (c # cs) =
     (if is_space c then (if cur = [] then split_from [] cs else cur # split_from [] cs)
      else split_from (cur @ [c]) cs)"

definition py_split :: "str \<Rightarrow> str list" where
  "py_split s = split_from [] s"

text \<open>
  \<open>s.splitlines()\<close>: lines end at \<open>\n\<close>, \<open>\r\<close>, \<open>\r\n\<close>, \<open>\v\<close>, \<open>\f\<close>, 0x1C, 0x1D,
  0x1E, 0x85, U+2028 and U+2029; the line ends are dropped, and a final line end
  starts no further line.
\<close>

definition is_linebreak :: "nat \<Rightarrow> bool" where
  "is_linebreak c = ((10 \<le> c \<and> c \<le> 13) \<or> (28 \<le> c \<and> c \<le> 30) \<or> c = 133
     \<or> c = 8232 \<or> c = 8233)"

fun splitlines_from :: "str \<Rightarrow> str \<Rightarrow> str list" where
  "splitlines_from cur [] = (if cur = [] then [] else [cur])"
| "splitlines_from cur (c # cs) =
     (if c = 13 \<and> cs \<noteq> [] \<and> hd cs = 10 then cur # splitlines_from [] (tl cs)
      else if is_linebreak c then cur # splitlines_from [] cs
      else splitlines_from (cur @ [c]) cs)"

definition py_splitlines :: "str \<Rightarrow> str list" where
  "py_splitlines s = splitlines_from [] s"

text \<open>
  \<open>s.lower()\<close> on the ASCII letters; letters beyond ASCII are left as they are.
\<close>

definition py_lower :: "str \<Rightarrow> str" where
  "py_lower s = map (\<lambda>c. if 65 \<le> c \<and> c \<le> 90 then c + 32 else c) s"

text \<open>
  \<open>string.whitespace\<close> (space, tab, newline, return, vertical tab, form feed) and
  \<open>string.punctuation\<close> (the 32 ASCII punctuation characters, 33-47, 58-64, 91-96
  and 123-126).
\<close>

definition string_whitespace :: "nat list" where
  "string_whitespace = [32, 9, 10, 13, 11, 12]"

definition string_punctuation :: "nat list" where
  "string_punctuation = [33..<48] @ [58..<65] @ [91..<97] @ [123..<127]"

text \<open>\<open>s.split(sep)\<close> for a one-character separator, and \<open>sep.join(parts)\<close>.\<close>

fun split_sep :: "nat \<Rightarrow> str \<Rightarrow> str list" where
  "split_sep c [] = [[]]"
| "split_sep c (x # xs) =
     (if x = c then [] # split_sep c xs
      else (case split_sep c xs of [] \<Rightarrow> [[x]] | w # ws \<Rightarrow> (x # w) # ws))"

fun join_sep :: "nat \<Rightarrow> str list \<Rightarrow> str" where
  "join_sep c [] = []"
| "join_sep c [w] = w"
| "join_sep c (w # ws) = w @ c # join_sep c ws"

section \<open>Paths (posixpath)\<close>

datatype py_error = ValueError | OSError

definition os_path_basename :: "str \<Rightarrow> str" where
  "os_path_basename p = rev (takeWhile (\<lambda>c. c \<noteq> 47) (rev p))"

definition os_path_isabs :: "str \<Rightarrow> bool" where
  "os_path_isabs p = py_startswith p [47]"

definition os_path_join :: "str \<Rightarrow> str \<Rightarrow> str" where
  "os_path_join a b =
     (if py_startswith b [47] then b
      else if a = [] \<or> py_endswith a [47] then a @ b
      else a @ [47] @ b)"

text \<open>
  \<open>os.path.splitext\<close>: the extension starts at the last dot of the base name, unless
  only dots stand before it.
\<close>

definition os_path_splitext :: "str \<Rightarrow> str \<times> str" where
  "os_path_splitext p =
     (let b = os_path_basename p;
          e = rev (takeWhile (\<lambda>c. c \<noteq> 46) (rev b));
          stem = take (length b - Suc (length e)) b
      in if list_ex (\<lambda>c. c = 46) b \<and> list_ex (\<lambda>c. c \<noteq> 46) stem
         then (take (length p - Suc (length e)) p, drop (length p - Suc (length e)) p)
         else (p, []))"

text \<open>\<open>os.path.normpath\<close>: one step of its loop over the components, and the whole.\<close>

definition normpath_step :: "nat \<Rightarrow> str list \<Rightarrow> str \<Rightarrow> str list" where
  "normpath_step initial_slashes new_comps cmp =
     (if cmp = [] \<or> cmp = [46] then new_comps
      else if cmp \<noteq> [46, 46] \<or> (initial_slashes = 0 \<and> new_comps = [])
              \<or> (new_comps \<noteq> [] \<and> last new_comps = [46, 46])
           then new_comps @ [cmp]
      else if new_comps \<noteq> [] then butlast new_comps
      else new_comps)"

definition os_path_normpath :: "str \<Rightarrow> str" where
  "os_path_normpath path =
     (if path = [] then [46]
      else
        let initial_slashes =
              (if py_startswith path [47]
               then (if py_startswith path [47, 47] \<and> \<not> py_startswith path [47, 47, 47]
                     then 2 else 1)
               else (0::nat));
            comps = foldl (normpath_step initial_slashes) [] (split_sep 47 path);
            path' = replicate initial_slashes 47 @ join_sep 47 comps
        in if path' = [] then [46] else path')"

text \<open>\<open>os.path.abspath\<close>, with the working directory \<open>os.getcwd()\<close> as an argument.\<close>

definition os_path_abspath :: "str \<Rightarrow> str \<Rightarrow> str" where
  "os_path_abspath cwd path =
     os_path_normpath (if os_path_isabs path then path else os_path_join cwd path)"

fun commonprefix :: "'a list \<Rightarrow> 'a list \<Rightarrow> 'a list" where
  "commonprefix (x # xs) (y # ys) = (if x = y then x # commonprefix xs ys else [])"
| "commonprefix xs ys = []"

text \<open>\<open>os.path.relpath(path, start)\<close>; it raises \<open>ValueError\<close> on an empty path.\<close>

definition os_path_relpath :: "str \<Rightarrow> str \<Rightarrow> str \<Rightarrow> py_error + str" where
  "os_path_relpath cwd path start =
     (if path = [] then Inl ValueError
      else
        let start_list = filter (\<lambda>x. x \<noteq> []) (split_sep 47 (os_path_abspath cwd start));
            path_list = filter (\<lambda>x. x \<noteq> []) (split_sep 47 (os_path_abspath cwd path));
            i = length (commonprefix start_list path_list);
            rel_list = replicate (length start_list - i) [46, 46] @ drop i path_list
        in if rel_list = [] then Inr [46] else Inr (join_sep 47 rel_list))"

section \<open>fnmatch\<close>

text \<open>
  \<open>fnmatch.fnmatch(name, pat)\<close> on POSIX, where \<open>normcase\<close> changes nothing: \<open>*\<close>
  matches any run of characters, \<open>?\<close> any one character, \<open>[seq]\<close> any character of
  \<open>seq\<close> and \<open>[!seq]\<close> any character not in it, a \<open>-\<close> between two characters of
  \<open>seq\<close> making a range (empty when its ends are out of order); a \<open>[\<close> with no
  closing \<open>]\<close> stands for itself. The whole name must match. The library folds a run
  of \<open>*\<close> into one, which matches the same names.
\<close>

datatype glob = Star | AnyChar | Lit nat | CharClass bool "(nat \<times> nat) list"

fun class_items :: "str \<Rightarrow> (nat \<times> nat) list" where
  "class_items (lo # m # hi # rest) =
     (if m = 45 then (lo, hi) # class_items rest else (lo, lo) # class_items (m # hi # rest))"
| "class_items (c # rest) = (c, c) # class_items rest"
| "class_items [] = []"

definition mk_class :: "str \<Rightarrow> glob" where
  "mk_class stuff =
     (if stuff \<noteq> [] \<and> hd stuff = 33 then CharClass True (class_items (tl stuff))
      else CharClass False (class_items stuff))"

text \<open>
  The index of the \<open>]\<close> that closes a bracket expression, in the text after its \<open>[\<close>:
  a leading \<open>!\<close> and a \<open>]\<close> right after it are skipped first.
\<close>

definition find_close :: "str \<Rightarrow> nat option" where
  "find_close rest =
     (let j0 = (if rest \<noteq> [] \<and> hd rest = 33 then 1 else 0);
          j1 = (if j0 < length rest \<and> rest ! j0 = 93 then Suc j0 else j0);
          tail = drop j1 rest
      in if list_ex (\<lambda>c. c = 93) tail
         then Some (j1 + length (takeWhile (\<lambda>c. c \<noteq> 93) tail))
         else None)"

fun translate :: "str \<Rightarrow> glob list" where
  "translate [] = []"
| "translate (c # rest) =
     (if c = 42 then Star # translate rest
      else if c = 63 then AnyChar # translate rest
      else if c = 91 then
        (case find_close rest of
           None \<Rightarrow> Lit 91 # translate rest
         | Some j \<Rightarrow> mk_class (take j rest) # translate (drop (Suc j) rest))
      else Lit c # translate rest)"

fun glob_match :: "glob list \<Rightarrow> str \<Rightarrow> bool" where
  "glob_match [] s = (s = [])"
| "glob_match (Star # gs) [] = glob_match gs []"
| "glob_match (Star # gs) (x # t) = (glob_match gs (x # t) \<or> glob_match (Star # gs) t)"
| "glob_match (AnyChar # gs) [] = False"
| "glob_match (AnyChar # gs) (x # t) = glob_match gs t"
| "glob_match (Lit c # gs) [] = False"
| "glob_match (Lit c # gs) (x # t) = (x = c \<and> glob_match gs t)"
| "glob_match (CharClass neg rs # gs) [] = False"
| "glob_match (CharClass neg rs # gs) (x # t) =
     ((neg \<noteq> list_ex (\<lambda>r. fst r \<le> x \<and> x \<le> snd r) rs) \<and> glob_match gs t)"

definition fnmatch :: "str \<Rightarrow> str \<Rightarrow> bool" where
  "fnmatch name pat = glob_match (translate pat) name"

section \<open>The file system and the complexity probe\<close>

text \<open>
  What the program can observe of a file: the result of \<open>os.stat\<close>; the bytes that
  \<open>open(path, 'rb')\<close> reads (\<open>None\<close> when it raises); the text that
  \<open>open(path, 'r', encoding='utf-8', errors='ignore').read()\<close> returns (\<open>None\<close> when it
  raises); and, for an ignore file, the lines that iterating over
  \<open>open(path, 'r', encoding='utf-8')\<close> yields, with whether the iteration ended in an
  exception. Decoding is the library's, so the text is given with the file.
\<close>

record stat_result =
  st_size :: int
  st_blocks :: "int option"

record file_obs =
  f_stat :: stat_result
  f_bytes :: "bytes option"
  f_read :: "str option"
  f_lines :: "str list"
  f_lines_error :: bool

text \<open>
  A directory holds its entries in the order \<open>os.scandir\<close> lists them. \<open>Dangling\<close> is
  an entry that can be listed but neither stat'ed nor opened (a broken symbolic
  link). \<open>os.stat\<close> succeeds on every file and directory: what can be opened can
  be stat'ed.
\<close>

datatype node = File file_obs | Dir stat_result "(str \<times> node) list" | Dangling

text \<open>
  The result of \<open>lizard.analyze_file\<close>, as far as the program reads it: the cyclomatic
  complexity of each function of \<open>function_list\<close>, and the average.
\<close>

record analysis =
  function_list :: "int list"
  average_cyclomatic_complexity :: rat

text \<open>
  The environment of a run: the file system from its root, the working directory
  (absolute), the directory of the script, and \<open>lizard.analyze_file\<close> when the
  import of \<open>lizard\<close> succeeded (\<open>HAS_LIZARD\<close>); \<open>analyze_file\<close> returns \<open>None\<close> when it
  raises.
\<close>

record env =
  fs_root :: node
  cwd :: str
  script_dir :: str
  lizard :: "(str \<Rightarrow> analysis option) option"

definition HAS_LIZARD :: "env \<Rightarrow> bool" where
  "HAS_LIZARD e = (lizard e \<noteq> None)"

text \<open>
  Path resolution from a directory, with the ancestors of that directory at hand for
  \<open>..\<close>: an empty component and \<open>.\<close> stay, \<open>..\<close> goes up (the root is its own
  parent), a name goes down; going on from anything but a directory fails.
\<close>

fun resolve :: "node \<Rightarrow> node list \<Rightarrow> str list \<Rightarrow> node option" where
  "resolve cur anc [] = Some cur"
| "resolve cur anc (c # cs) =
     (case cur of
        Dir st es \<Rightarrow>
          if c = [] \<or> c = [46] then resolve cur anc cs
          else if c = [46, 46] then
            (case anc of [] \<Rightarrow> resolve cur [] cs | p # ps \<Rightarrow> resolve p ps cs)
          else (case map_of es c of None \<Rightarrow> None | Some n \<Rightarrow> resolve n (cur # anc) cs)
      | _ \<Rightarrow> None)"

definition lookup :: "env \<Rightarrow> str \<Rightarrow> node option" where
  "lookup e path =
     (if path = [] then None
      else if os_path_isabs path then resolve (fs_root e) [] (split_sep 47 path)
      else resolve (fs_root e) [] (split_sep 47 (cwd e) @ split_sep 47 path))"

definition os_path_exists :: "env \<Rightarrow> str \<Rightarrow> bool" where
  "os_path_exists e path =
     (case lookup e path of Some (File f) \<Rightarrow> True | Some (Dir st es) \<Rightarrow> True | _ \<Rightarrow> False)"

definition os_path_isdir :: "env \<Rightarrow> str \<Rightarrow> bool" where
  "os_path_isdir e path = (case lookup e path of Some (Dir st es) \<Rightarrow> True | _ \<Rightarrow> False)"

definition os_stat :: "env \<Rightarrow> str \<Rightarrow> py_error + stat_result" where
  "os_stat e path =
     (case lookup e path of
        Some (File f) \<Rightarrow> Inr (f_stat f)
      | Some (Dir st es) \<Rightarrow> Inr st
      | _ \<Rightarrow> Inl OSError)"

text \<open>\<open>open(path, 'rb')\<close> and \<open>f.read(1024)\<close>.\<close>

definition read_chunk :: "env \<Rightarrow> str \<Rightarrow> py_error + bytes" where
  "read_chunk e path =
     (case lookup e path of
        Some (File f) \<Rightarrow> (case f_bytes f of None \<Rightarrow> Inl OSError | Some bs \<Rightarrow> Inr (take 1024 bs))
      | _ \<Rightarrow> Inl OSError)"

text \<open>\<open>open(path, 'r', encoding='utf-8', errors='ignore')\<close> and \<open>f.read()\<close>.\<close>

definition read_text :: "env \<Rightarrow> str \<Rightarrow> py_error + str" where
  "read_text e path =
     (case lookup e path of
        Some (File f) \<Rightarrow> (case f_read f of None \<Rightarrow> Inl OSError | Some t \<Rightarrow> Inr t)
      | _ \<Rightarrow> Inl OSError)"

text \<open>
  \<open>open(path, 'r', encoding='utf-8')\<close> and the iteration over its lines: the lines
  read, and the exception that ended the reading, if any.
\<close>

definition read_lines :: "env \<Rightarrow> str \<Rightarrow> str list \<times> py_error option" where
  "read_lines e path =
     (case lookup e path of
        Some (File f) \<Rightarrow> (f_lines f, if f_lines_error f then Some OSError else None)
      | _ \<Rightarrow> ([], Some OSError))"

section \<open>IgnoreMatcher\<close>

record IgnoreMatcher =
  root_dir :: str
  patterns :: "str list"

text \<open>
  \<open>IgnoreMatcher.load_patterns\<close> (lines 68-78). The body of the loop; then the loop
  over the lines read. An exception only prints a warning: the patterns appended
  before it stay.
\<close>

definition load_line :: "str list \<Rightarrow> str \<Rightarrow> str list" where
  "load_line ps line0 =
     (let line = py_strip line0
      in if line = [] \<or> py_startswith line [35] then ps else ps @ [line])"

definition load_patterns :: "env \<Rightarrow> IgnoreMatcher \<Rightarrow> str \<Rightarrow> IgnoreMatcher" where
  "load_patterns e self fpath =
     (case read_lines e fpath of
        (ls, err) \<Rightarrow>
          (let self' = self\<lparr>patterns := foldl load_line (patterns self) ls\<rparr>
           in case err of None \<Rightarrow> self' | Some ex \<Rightarrow> self'))"

text \<open>\<open>IgnoreMatcher.__init__\<close> (lines 48-66).\<close>

definition IgnoreMatcher_init :: "env \<Rightarrow> str \<Rightarrow> IgnoreMatcher" where
  "IgnoreMatcher_init e rd =
     (let self = \<lparr>root_dir = rd, patterns = []\<rparr>;
          global_ignore = os_path_join (script_dir e) (s2u ''.analyzerignore'');
          self = (if os_path_exists e global_ignore then load_patterns e self global_ignore
                  else self);
          git_ignore = os_path_join rd (s2u ''.gitignore'');
          self = (if os_path_exists e git_ignore then load_patterns e self git_ignore
                  else self);
          local_ignore = os_path_join rd (s2u ''.analyzerignore'');
          self = (if os_path_exists e local_ignore then load_patterns e self local_ignore
                  else self)
      in self)"

text \<open>
  \<open>IgnoreMatcher.is_ignored\<close> (lines 80-111): the loop over the patterns, which
  returns at the first match, and the method. \<open>os.sep\<close> is \<open>/\<close>, so the replacement
  of line 92 changes nothing.
\<close>

fun match_patterns :: "env \<Rightarrow> str \<Rightarrow> str \<Rightarrow> str \<Rightarrow> str list \<Rightarrow> bool" where
  "match_patterns e rd rel_path name [] = False"
| "match_patterns e rd rel_path name (pattern # ps) =
     (let clean_pattern = py_rstrip 47 pattern
      in if fnmatch name clean_pattern then True
         else if fnmatch rel_path clean_pattern then True
         else if (py_endswith pattern [47] \<or> os_path_isdir e (os_path_join rd pattern))
                 \<and> py_startswith rel_path (clean_pattern @ [47]) then True
         else match_patterns e rd rel_path name ps)"

definition is_ignored :: "env \<Rightarrow> IgnoreMatcher \<Rightarrow> str \<Rightarrow> bool" where
  "is_ignored e self path =
     (let rel_path = (case os_path_relpath (cwd e) path (root_dir self) of
                        Inl ex \<Rightarrow> path
                      | Inr r \<Rightarrow> r);
          name = os_path_basename path
      in match_patterns e (root_dir self) rel_path name (patterns self))"

section \<open>Measuring one file\<close>

text \<open>\<open>FileStats.__init__\<close> (lines 115-141); \<open>FileStats()\<close> passes \<open>None\<close> twice.\<close>

definition FileStats_init :: "env \<Rightarrow> str option \<Rightarrow> str option \<Rightarrow> FileStats" where
  "FileStats_init e fpath rdir =
     \<lparr>filepath = fpath,
      relpath =
        (case (fpath, rdir) of
           (Some fp, Some rd) \<Rightarrow>
             if fp \<noteq> [] \<and> rd \<noteq> [] then
               (case os_path_relpath (cwd e) fp rd of Inl ex \<Rightarrow> Some fp | Inr r \<Rightarrow> Some r)
             else fpath
         | _ \<Rightarrow> fpath),
      filename = (case fpath of Some fp \<Rightarrow> os_path_basename fp | None \<Rightarrow> []),
      count_files = 0,
      size_bytes = 0,
      disk_usage = 0,
      char_count = 0,
      char_count_no_space = 0,
      line_count = 0,
      word_counter = [],
      lines_lengths = [],
      extensions = [],
      skipped = 0,
      stats_summary = None,
      complexity_avg = 0,
      complexity_max = 0,
      functions_count = 0\<rparr>"

text \<open>
  \<open>FileStats.to_dict\<close> (lines 161-182). The keys of the dict are the fields of
  \<open>file_dict\<close>.
\<close>

record file_dict =
  d_path :: "str option"
  d_name :: str
  d_ext :: str
  d_size :: int
  d_lines :: int
  d_chars :: int
  d_words :: int
  d_avg_line_len :: rat
  d_is_binary :: int
  d_complexity_avg :: rat
  d_complexity_max :: int

definition FileStats_to_dict :: "env \<Rightarrow> FileStats \<Rightarrow> file_dict" where
  "FileStats_to_dict e self =
     (let data = \<lparr>d_path = relpath self,
                  d_name = filename self,
                  d_ext = (case extensions self of [] \<Rightarrow> [] | kv # rest \<Rightarrow> fst kv),
                  d_size = size_bytes self,
                  d_lines = line_count self,
                  d_chars = char_count self,
                  d_words = sum_list (map snd (word_counter self)),
                  d_avg_line_len =
                    (case stats_summary self of None \<Rightarrow> 0 | Some sm \<Rightarrow> mean_len sm),
                  d_is_binary = skipped self,
                  d_complexity_avg = 0,
                  d_complexity_max = 0\<rparr>
      in if HAS_LIZARD e \<and> skipped self = 0 \<and> functions_count self > 0
         then data\<lparr>d_complexity_avg := complexity_avg self,
                   d_complexity_max := complexity_max self\<rparr>
         else data\<lparr>d_complexity_avg := 0, d_complexity_max := 0\<rparr>)"

definition BINARY_EXTENSIONS :: "str list" where
  "BINARY_EXTENSIONS = map s2u
     [''.png'', ''.jpg'', ''.jpeg'', ''.gif'', ''.ico'', ''.pdf'', ''.zip'', ''.tar'', ''.gz'',
      ''.exe'', ''.dll'', ''.so'', ''.bin'', ''.dat'', ''.mp3'', ''.mp4'', ''.avi'', ''.mov'',
      ''.woff'', ''.woff2'', ''.ttf'', ''.eot'']"

definition BLOCK_SIZE :: int where
  "BLOCK_SIZE = 4096"

text \<open>\<open>is_binary_file\<close> (lines 188-200).\<close>

definition is_binary_file :: "env \<Rightarrow> str \<Rightarrow> bool" where
  "is_binary_file e fpath =
     (let ext = snd (os_path_splitext fpath)
      in if py_lower ext \<in> set BINARY_EXTENSIONS then True
         else (case read_chunk e fpath of
                 Inl ex \<Rightarrow> True
               | Inr chunk \<Rightarrow> if CHR 0x00 \<in> set chunk then True else False))"

text \<open>
  \<open>round(x, 2)\<close>, to the nearest hundredth and to the even one at a tie; and
  \<open>statistics.median\<close> of a sorted, non-empty list.
\<close>

definition round2 :: "rat \<Rightarrow> rat" where
  "round2 x =
     (let y = x * 100; f = \<lfloor>y\<rfloor>; d = y - of_int f
      in of_int (if d < 1 / 2 then f else if 1 / 2 < d then f + 1
                 else if even f then f else f + 1) / 100)"

definition median_sorted :: "int list \<Rightarrow> rat" where
  "median_sorted data =
     (let n = length data
      in if odd n then of_int (data ! (n div 2))
         else (of_int (data ! (n div 2 - 1)) + of_int (data ! (n div 2))) / 2)"

text \<open>\<open>get_list_stats\<close> (lines 202-213).\<close>

definition get_list_stats :: "int list \<Rightarrow> summary" where
  "get_list_stats num_list =
     (if num_list = [] then \<lparr>min_len = 0, max_len = 0, mean_len = 0, median_len = 0\<rparr>
      else
        let data = sort num_list
        in \<lparr>min_len = hd data,
            max_len = last data,
            mean_len = round2 (of_int (sum_list data) / of_int (int (length data))),
            median_len = median_sorted data\<rparr>)"

text \<open>
  \<open>analyze_complexity\<close> (lines 215-230). Any exception of the probe is swallowed.
\<close>

definition analyze_complexity :: "env \<Rightarrow> str \<Rightarrow> FileStats \<Rightarrow> FileStats" where
  "analyze_complexity e fpath stats_obj =
     (case lizard e of
        None \<Rightarrow> stats_obj
      | Some analyze_file \<Rightarrow>
          if skipped stats_obj \<noteq> 0 then stats_obj
          else
            (case analyze_file fpath of
               None \<Rightarrow> stats_obj
             | Some an \<Rightarrow>
                 (let stats1 = stats_obj\<lparr>functions_count := int (length (function_list an))\<rparr>
                  in if functions_count stats1 > 0
                     then stats1\<lparr>complexity_avg := round2 (average_cyclomatic_complexity an),
                                 complexity_max :=
                                   foldl max (hd (function_list an)) (tl (function_list an))\<rparr>
                     else stats1)))"

text \<open>
  \<open>calculate_stats\<close> (lines 232-276). \<open>os.stat\<close> is the one call of the outer \<open>try\<close>
  that can raise; the handler prints and the record built so far is returned.
\<close>

definition calculate_stats :: "env \<Rightarrow> str \<Rightarrow> str \<Rightarrow> FileStats" where
  "calculate_stats e fpath rdir =
     (let stats = (FileStats_init e (Some fpath) (Some rdir))\<lparr>count_files := 1\<rparr>
      in case os_stat e fpath of
           Inl ex \<Rightarrow> stats
         | Inr st \<Rightarrow>
             (let stats1 = stats\<lparr>size_bytes := st_size st\<rparr>;
                  stats2 = stats1\<lparr>disk_usage :=
                    (case st_blocks st of
                       Some b \<Rightarrow> b * 512
                     | None \<Rightarrow> ((size_bytes stats1 + BLOCK_SIZE - 1) div BLOCK_SIZE) * BLOCK_SIZE)\<rparr>;
                  ext = snd (os_path_splitext fpath);
                  stats3 = stats2\<lparr>extensions :=
                    counter_add (extensions stats2)
                      (if py_lower ext = [] then s2u ''no_ext'' else py_lower ext) 1\<rparr>
              in if is_binary_file e fpath then stats3\<lparr>skipped := 1\<rparr>
                 else
                   (case read_text e fpath of
                      Inl ex \<Rightarrow> stats3\<lparr>skipped := 1\<rparr>
                    | Inr content \<Rightarrow>
                        (let lines = py_splitlines content;
                             words = py_split
                               (map (\<lambda>c. if c \<in> set string_punctuation then 32 else c) content);
                             stats4 = stats3
                               \<lparr>char_count := int (length content),
                                char_count_no_space :=
                                  int (length (filter (\<lambda>c. c \<notin> set string_whitespace) content)),
                                line_count := int (length lines),
                                lines_lengths := map (\<lambda>line. int (length line)) lines,
                                word_counter := counter_update_iter (word_counter stats3) words\<rparr>;
                             stats5 = stats4\<lparr>stats_summary :=
                               Some (get_list_stats (lines_lengths stats4))\<rparr>
                         in analyze_complexity e fpath stats5))))"

section \<open>The scan\<close>

text \<open>
  \<open>os.walk(top)\<close>, top-down, together with the pruning the loop of \<open>main\<close> does on
  \<open>dirs\<close> before the walk goes down: the pairs of \<open>root\<close> and \<open>files\<close> the loop sees, in
  order. \<open>ign\<close> is the test on the path of a subdirectory. A directory comes before
  its subdirectories; an entry that is not a directory is a file.
\<close>

fun is_dir_node :: "node \<Rightarrow> bool" where
  "is_dir_node (Dir st es) = True"
| "is_dir_node n = False"

fun os_walk :: "(str \<Rightarrow> bool) \<Rightarrow> str \<Rightarrow> node \<Rightarrow> (str \<times> str list) list" where
  "os_walk ign topd (Dir st es) =
     (topd, map fst (filter (\<lambda>en. \<not> is_dir_node (snd en)) es)) #
     concat (map (\<lambda>en. if is_dir_node (snd en) \<and> \<not> ign (os_path_join topd (fst en))
                         then os_walk ign (os_path_join topd (fst en)) (snd en)
                         else []) es)"
| "os_walk ign topd n = []"

text \<open>
  The state of the loop of \<open>main\<close>: \<open>total_stats\<close>, \<open>all_file_details\<close> and
  \<open>folder_stats_map\<close>, a \<open>defaultdict(FileStats)\<close> keyed by directory.
\<close>

record scan_state =
  total_stats :: FileStats
  all_file_details :: "FileStats list"
  folder_stats_map :: "(str \<times> FileStats) list"

text \<open>\<open>folder_stats_map[root].add(file_stats)\<close>: a missing key starts from \<open>FileStats()\<close>.\<close>

fun folder_add :: "env \<Rightarrow> (str \<times> FileStats) list \<Rightarrow> str \<Rightarrow> FileStats \<Rightarrow> (str \<times> FileStats) list" where
  "folder_add e [] rootd file_stats =
     [(rootd, FileStats_add (FileStats_init e None None) file_stats)]"
| "folder_add e ((k, v) # m) rootd file_stats =
     (if k = rootd then (k, FileStats_add v file_stats) # m
      else (k, v) # folder_add e m rootd file_stats)"

text \<open>The body of the inner loop (lines 637-647), for one file of \<open>root\<close>.\<close>

definition scan_file ::
  "env \<Rightarrow> IgnoreMatcher \<Rightarrow> str \<Rightarrow> str \<Rightarrow> scan_state \<Rightarrow> str \<Rightarrow> scan_state" where
  "scan_file e ignore_matcher target_dir_abs rootd s fname =
     (let fpath = os_path_join rootd fname
      in if is_ignored e ignore_matcher fpath then s
         else
           (let file_stats = calculate_stats e fpath target_dir_abs
            in \<lparr>total_stats = FileStats_add (total_stats s) file_stats,
                all_file_details = all_file_details s @ [file_stats],
                folder_stats_map = folder_add e (folder_stats_map s) rootd file_stats\<rparr>))"

text \<open>The loop over the walk (lines 634-647).\<close>

definition scan :: "env \<Rightarrow> IgnoreMatcher \<Rightarrow> str \<Rightarrow> scan_state" where
  "scan e ignore_matcher target_dir_abs =
     foldl (\<lambda>s rf. foldl (scan_file e ignore_matcher target_dir_abs (fst rf)) s (snd rf))
       \<lparr>total_stats = FileStats_init e None None,
        all_file_details = [],
        folder_stats_map = []\<rparr>
       (case lookup e target_dir_abs of
          None \<Rightarrow> []
        | Some n \<Rightarrow> os_walk (is_ignored e ignore_matcher) target_dir_abs n)"

text \<open>
  \<open>main\<close> (lines 591-661), from the resolution of the target directory to the end of
  the scan: \<open>sys.exit(1)\<close> when the target does not exist, the state of the loop
  otherwise. Argument parsing, the output directory and the report writers are
  left out.
\<close>

datatype py_exit = SystemExit int

definition main :: "env \<Rightarrow> str \<Rightarrow> py_exit + scan_state" where
  "main e target_dir =
     (let target_dir_abs = os_path_abspath (cwd e) target_dir
      in if \<not> os_path_exists e target_dir_abs then Inl (SystemExit 1)
         else
           (let ignore_matcher = IgnoreMatcher_init e target_dir_abs
            in Inr (scan e ignore_matcher target_dir_abs)))"

section \<open>A concrete file system\<close>

text \<open>
  The lines that iterating over a text file yields, each with its \<open>\n\<close>; and what
  the program observes of a file of ASCII text without carriage returns.
\<close>

fun keepends_from :: "str \<Rightarrow> str \<Rightarrow> str list" where
  "keepends_from cur [] = (if cur = [] then [] else [cur])"
| "keepends_from cur (c # cs) =
     (if c = 10 then (cur @ [c]) # keepends_from [] cs else keepends_from (cur @ [c]) cs)"

definition ascii_file :: "string \<Rightarrow> file_obs" where
  "ascii_file s =
     \<lparr>f_stat = \<lparr>st_size = int (length s), st_blocks = Some 8\<rparr>,
      f_bytes = Some s,
      f_read = Some (s2u s),
      f_lines = keepends_from [] (s2u s),
      f_lines_error = False\<rparr>"

definition dir_stat :: stat_result where
  "dir_stat = \<lparr>st_size = 4096, st_blocks = Some 8\<rparr>"

text \<open>
  A binary file: the PNG signature and a null byte. Read as text with
  \<open>errors='ignore'\<close> the byte 0x89 is dropped and \<open>\r\n\<close> becomes \<open>\n\<close>; read strictly
  the first byte raises.
\<close>

definition binary_file :: file_obs where
  "binary_file =
     \<lparr>f_stat = \<lparr>st_size = 9, st_blocks = Some 8\<rparr>,
      f_bytes = Some [CHR 0x89, CHR ''P'', CHR ''N'', CHR ''G'', CHR 0x0D, CHR 0x0A,
                      CHR 0x1A, CHR 0x0A, CHR 0x00],
      f_read = Some [80, 78, 71, 10, 26, 10, 0],
      f_lines = [],
      f_lines_error = True\<rparr>"

text \<open>A file that cannot be opened, and an ignore file whose third line cannot be read.\<close>

definition unreadable_file :: file_obs where
  "unreadable_file =
     \<lparr>f_stat = \<lparr>st_size = 120, st_blocks = Some 8\<rparr>,
      f_bytes = None,
      f_read = None,
      f_lines = [],
      f_lines_error = True\<rparr>"

definition broken_ignore_file :: file_obs where
  "broken_ignore_file =
     \<lparr>f_stat = \<lparr>st_size = 17, st_blocks = Some 8\<rparr>,
      f_bytes = Some (''# out'' @ [CHR 0x0A] @ ''dist/'' @ [CHR 0x0A, CHR 0xFF] @ ''tmp'' @ [CHR 0x0A]),
      f_read = Some (s2u (''# out'' @ [CHR 0x0A] @ ''dist/'' @ [CHR 0x0A] @ ''tmp'' @ [CHR 0x0A])),
      f_lines = [s2u (''# out'' @ [CHR 0x0A]), s2u (''dist/'' @ [CHR 0x0A])],
      f_lines_error = True\<rparr>"

text \<open>
  The root holds \<open>proj\<close> (the files \<open>a.txt\<close> and \<open>img.png\<close>), \<open>tool\<close> (the script's
  directory, with the global ignore file \<open>*.png\<close>) and \<open>work\<close>. No complexity probe.
\<close>

definition scenario_env :: env where
  "scenario_env =
     \<lparr>fs_root = Dir dir_stat
        [(s2u ''proj'', Dir dir_stat
            [(s2u ''a.txt'',
                File (ascii_file (''a b c'' @ [CHR 0x0A] @ ''d e'' @ [CHR 0x0A] @ ''f''))),
             (s2u ''img.png'', File binary_file)]),
         (s2u ''tool'', Dir dir_stat
            [(s2u ''.analyzerignore'', File (ascii_file (''*.png'' @ [CHR 0x0A])))]),
         (s2u ''work'', Dir dir_stat
            [(s2u ''.gitignore'', File broken_ignore_file),
             (s2u ''words.txt'', File (ascii_file ''Foo foo, bar'')),
             (s2u ''blob'', File binary_file),
             (s2u ''secret.txt'', File unreadable_file),
             (s2u ''gone'', Dangling),
             (s2u ''build'', Dir dir_stat [(s2u ''out.txt'', File (ascii_file ''x''))])])],
      cwd = s2u ''/'',
      script_dir = s2u ''/tool'',
      lizard = None\<rparr>"

text \<open>
  The same files with a probe: one that finds no function in any file, and one that
  reports a single function of complexity 0.
\<close>

definition probe_no_function :: "str \<Rightarrow> analysis option" where
  "probe_no_function p = Some \<lparr>function_list = [], average_cyclomatic_complexity = 0\<rparr>"

definition probe_zero :: "str \<Rightarrow> analysis option" where
  "probe_zero p = Some \<lparr>function_list = [0], average_cyclomatic_complexity = 0\<rparr>"

text \<open>An empty file system.\<close>

definition empty_env :: env where
  "empty_env =
     \<lparr>fs_root = Dir dir_stat [], cwd = s2u ''/'', script_dir = s2u ''/tool'', lizard = None\<rparr>"

section \<open>Counters: merging is associative\<close>

lemma counter_add_map_fst:
  "map fst (counter_add c k n) = (if k \<in> fst ` set c then map fst c else map fst c @ [k])"
  by (induction c) (force+)

lemma counter_add_keys: "fst ` set (counter_add c k n) = insert k (fst ` set c)"
proof -
  have "set (map fst (counter_add c k n)) = insert k (set (map fst c))"
    unfolding counter_add_map_fst by auto
  then show ?thesis by simp
qed

lemma counter_add_absent: "k \<notin> fst ` set c \<Longrightarrow> counter_add c k n = c @ [(k, n)]"
  by (induction c) auto

lemma counter_add_twice: "counter_add (counter_add c k m) k n = counter_add c k (m + n)"
  by (induction c) auto

lemma counter_add_commute:
  "k \<in> fst ` set c \<Longrightarrow>
   counter_add (counter_add c j m) k n = counter_add (counter_add c k n) j m"
  by (induction c) (force+)

lemma counter_update_keys:
  "fst ` set (counter_update c other) = fst ` set c \<union> fst ` set other"
  unfolding counter_update_def
  by (induction other arbitrary: c) (auto simp: counter_add_keys)

lemma counter_update_add_present:
  "k \<in> fst ` set c \<Longrightarrow>
   counter_add (counter_update c b) k n = counter_update (counter_add c k n) b"
  unfolding counter_update_def
proof (induction b arbitrary: c)
  case Nil
  then show ?case by simp
next
  case (Cons e b)
  have "k \<in> fst ` set (counter_add c (fst e) (snd e))"
    using Cons.prems by (simp add: counter_add_keys)
  then show ?case
    using Cons.IH [of "counter_add c (fst e) (snd e)"] Cons.prems
    by (simp add: counter_add_commute)
qed

lemma counter_update_snoc:
  "counter_update c (b @ [(k, n)]) = counter_add (counter_update c b) k n"
  by (simp add: counter_update_def)

lemma counter_update_add:
  "counter_update a (counter_add b k n) = counter_add (counter_update a b) k n"
proof (cases "k \<in> fst ` set b")
  case False
  then show ?thesis by (simp add: counter_add_absent counter_update_snoc)
next
  case True
  then show ?thesis
  proof (induction b arbitrary: a)
    case Nil
    then show ?case by simp
  next
    case (Cons e b)
    obtain k' v where e: "e = (k', v)" by (cases e)
    show ?case
    proof (cases "k' = k")
      case True
      have "counter_update a (counter_add (e # b) k n)
            = counter_update (counter_add a k (v + n)) b"
        using True e by (simp add: counter_update_def)
      also have "\<dots> = counter_update (counter_add (counter_add a k v) k n) b"
        by (simp add: counter_add_twice)
      also have "\<dots> = counter_add (counter_update (counter_add a k v) b) k n"
        by (rule counter_update_add_present [symmetric]) (simp add: counter_add_keys)
      also have "\<dots> = counter_add (counter_update a (e # b)) k n"
        using True e by (simp add: counter_update_def)
      finally show ?thesis .
    next
      case False
      then have "k \<in> fst ` set b" using Cons.prems e by auto
      then show ?thesis
        using Cons.IH [of "counter_add a k' v"] False e
        by (simp add: counter_update_def)
    qed
  qed
qed

lemma counter_update_assoc:
  "counter_update (counter_update a b) c = counter_update a (counter_update b c)"
proof (induction c arbitrary: b)
  case Nil
  then show ?case by (simp add: counter_update_def)
next
  case (Cons e c)
  have "counter_update (counter_update a b) (e # c)
        = counter_update (counter_add (counter_update a b) (fst e) (snd e)) c"
    by (simp add: counter_update_def)
  also have "\<dots> = counter_update (counter_update a (counter_add b (fst e) (snd e))) c"
    by (simp add: counter_update_add)
  also have "\<dots> = counter_update a (counter_update (counter_add b (fst e) (snd e)) c)"
    by (rule Cons.IH)
  also have "\<dots> = counter_update a (counter_update b (e # c))"
    by (simp add: counter_update_def)
  finally show ?case .
qed

section \<open>Evaluating the concrete file system\<close>

lemmas path_defs = os_path_abspath_def os_path_normpath_def os_path_isabs_def os_path_join_def
  py_startswith_def py_endswith_def normpath_step_def os_path_basename_def os_path_relpath_def
  os_path_splitext_def Let_def

lemma lookup_a_txt:
  "lookup scenario_env (s2u ''/proj/a.txt'')
   = Some (File (ascii_file (''a b c'' @ [CHR 0x0A] @ ''d e'' @ [CHR 0x0A] @ ''f'')))"
  by (simp add: lookup_def scenario_env_def s2u_def os_path_isabs_def py_startswith_def)

lemma lookup_img_png:
  "lookup scenario_env (s2u ''/proj/img.png'') = Some (File binary_file)"
  by (simp add: lookup_def scenario_env_def s2u_def os_path_isabs_def py_startswith_def)

lemma lookup_blob: "lookup scenario_env (s2u ''/work/blob'') = Some (File binary_file)"
  by (simp add: lookup_def scenario_env_def s2u_def os_path_isabs_def py_startswith_def)

lemma init_a_txt:
  "FileStats_init scenario_env (Some (s2u ''/proj/a.txt'')) (Some (s2u ''/proj''))
   = \<lparr>filepath = Some (s2u ''/proj/a.txt''), relpath = Some (s2u ''a.txt''),
      filename = s2u ''a.txt'', count_files = 0, size_bytes = 0, disk_usage = 0,
      char_count = 0, char_count_no_space = 0, line_count = 0, word_counter = [],
      lines_lengths = [], extensions = [], skipped = 0, stats_summary = None,
      complexity_avg = 0, complexity_max = 0, functions_count = 0\<rparr>"
  by (simp add: FileStats_init_def scenario_env_def path_defs s2u_def)

lemma init_img_png:
  "FileStats_init scenario_env (Some (s2u ''/proj/img.png'')) (Some (s2u ''/proj''))
   = \<lparr>filepath = Some (s2u ''/proj/img.png''), relpath = Some (s2u ''img.png''),
      filename = s2u ''img.png'', count_files = 0, size_bytes = 0, disk_usage = 0,
      char_count = 0, char_count_no_space = 0, line_count = 0, word_counter = [],
      lines_lengths = [], extensions = [], skipped = 0, stats_summary = None,
      complexity_avg = 0, complexity_max = 0, functions_count = 0\<rparr>"
  by (simp add: FileStats_init_def scenario_env_def path_defs s2u_def)

lemma init_blob:
  "FileStats_init scenario_env (Some (s2u ''/work/blob'')) (Some (s2u ''/work''))
   = \<lparr>filepath = Some (s2u ''/work/blob''), relpath = Some (s2u ''blob''),
      filename = s2u ''blob'', count_files = 0, size_bytes = 0, disk_usage = 0,
      char_count = 0, char_count_no_space = 0, line_count = 0, word_counter = [],
      lines_lengths = [], extensions = [], skipped = 0, stats_summary = None,
      complexity_avg = 0, complexity_max = 0, functions_count = 0\<rparr>"
  by (simp add: FileStats_init_def scenario_env_def path_defs s2u_def)

lemma binary_a_txt: "\<not> is_binary_file scenario_env (s2u ''/proj/a.txt'')"
  unfolding is_binary_file_def read_chunk_def lookup_a_txt
  by (simp add: path_defs s2u_def BINARY_EXTENSIONS_def py_lower_def ascii_file_def)

lemma binary_img_png: "is_binary_file scenario_env (s2u ''/proj/img.png'')"
  unfolding is_binary_file_def
  by (simp add: path_defs s2u_def BINARY_EXTENSIONS_def py_lower_def)

lemma binary_blob: "is_binary_file scenario_env (s2u ''/work/blob'')"
  unfolding is_binary_file_def read_chunk_def lookup_blob
  by (simp add: path_defs s2u_def BINARY_EXTENSIONS_def py_lower_def binary_file_def)

lemma calc_a_txt:
  "calculate_stats scenario_env (s2u ''/proj/a.txt'') (s2u ''/proj'')
   = \<lparr>filepath = Some (s2u ''/proj/a.txt''), relpath = Some (s2u ''a.txt''),
      filename = s2u ''a.txt'', count_files = 1, size_bytes = 11, disk_usage = 4096,
      char_count = 11, char_count_no_space = 6, line_count = 3,
      word_counter = [(s2u ''a'', 1), (s2u ''b'', 1), (s2u ''c'', 1), (s2u ''d'', 1),
                      (s2u ''e'', 1), (s2u ''f'', 1)],
      lines_lengths = [5, 3, 1], extensions = [(s2u ''.txt'', 1)], skipped = 0,
      stats_summary = Some \<lparr>min_len = 1, max_len = 5, mean_len = 3, median_len = 3\<rparr>,
      complexity_avg = 0, complexity_max = 0, functions_count = 0\<rparr>"
  unfolding calculate_stats_def init_a_txt os_stat_def read_text_def lookup_a_txt
  apply (simp add: binary_a_txt)
  apply (simp add: ascii_file_def s2u_def Let_def os_path_splitext_def os_path_basename_def
      py_lower_def py_splitlines_def py_split_def string_punctuation_def
      string_whitespace_def is_space_def is_linebreak_def counter_update_iter_def
      analyze_complexity_def scenario_env_def get_list_stats_def round2_def
      median_sorted_def BLOCK_SIZE_def)
  done

lemma calc_img_png:
  "calculate_stats scenario_env (s2u ''/proj/img.png'') (s2u ''/proj'')
   = \<lparr>filepath = Some (s2u ''/proj/img.png''), relpath = Some (s2u ''img.png''),
      filename = s2u ''img.png'', count_files = 1, size_bytes = 9, disk_usage = 4096,
      char_count = 0, char_count_no_space = 0, line_count = 0, word_counter = [],
      lines_lengths = [], extensions = [(s2u ''.png'', 1)], skipped = 1,
      stats_summary = None, complexity_avg = 0, complexity_max = 0, functions_count = 0\<rparr>"
  unfolding calculate_stats_def init_img_png os_stat_def lookup_img_png
  apply (simp add: binary_img_png)
  apply (simp add: binary_file_def s2u_def Let_def os_path_splitext_def os_path_basename_def
      py_lower_def)
  done

lemma calc_blob:
  "calculate_stats scenario_env (s2u ''/work/blob'') (s2u ''/work'')
   = \<lparr>filepath = Some (s2u ''/work/blob''), relpath = Some (s2u ''blob''),
      filename = s2u ''blob'', count_files = 1, size_bytes = 9, disk_usage = 4096,
      char_count = 0, char_count_no_space = 0, line_count = 0, word_counter = [],
      lines_lengths = [], extensions = [(s2u ''no_ext'', 1)], skipped = 1,
      stats_summary = None, complexity_avg = 0, complexity_max = 0, functions_count = 0\<rparr>"
  unfolding calculate_stats_def init_blob os_stat_def lookup_blob
  apply (simp add: binary_blob)
  apply (simp add: binary_file_def s2u_def Let_def os_path_splitext_def os_path_basename_def
      py_lower_def)
  done

section \<open>Merging records\<close>

lemma FileStats_add_assoc_but_skipped:
  "(FileStats_add (FileStats_add a b) c)\<lparr>skipped := s\<rparr>
   = (FileStats_add a (FileStats_add b c))\<lparr>skipped := s\<rparr>"
  by (simp add: FileStats_add_def counter_update_assoc)

lemma skipped_add:
  "skipped (FileStats_add a b) = skipped a + (if skipped b \<noteq> 0 then 1 else 0)"
  by (simp add: FileStats_add_def)

text \<open>
  C1, as stated, fails: with \<open>a.txt\<close> for A and the two binary files \<open>img.png\<close> and
  \<open>blob\<close> for B and C, each record fresh from \<open>calculate_stats\<close>, merging
  \<open>(A + B) + C\<close> counts two skipped files and \<open>A + (B + C)\<close> counts one.
\<close>

theorem FileStats_add_assoc_counterexample:
  "skipped (FileStats_add
      (FileStats_add (calculate_stats scenario_env (s2u ''/proj/a.txt'') (s2u ''/proj''))
         (calculate_stats scenario_env (s2u ''/proj/img.png'') (s2u ''/proj'')))
      (calculate_stats scenario_env (s2u ''/work/blob'') (s2u ''/work''))) = 2
   \<and> skipped (FileStats_add
      (calculate_stats scenario_env (s2u ''/proj/a.txt'') (s2u ''/proj''))
      (FileStats_add (calculate_stats scenario_env (s2u ''/proj/img.png'') (s2u ''/proj''))
         (calculate_stats scenario_env (s2u ''/work/blob'') (s2u ''/work'')))) = 1"
  unfolding calc_a_txt calc_img_png calc_blob
  by (simp add: FileStats_add_def)

text \<open>
  C1, amended: for any three records, \<open>add\<close> nested to the left and \<open>add\<close> nested to
  the right agree on every field other than \<open>skipped\<close>; when B's \<open>skipped\<close> is not
  negative (it is 0 or 1 on a fresh record) the two results are equal exactly when B
  or C is not skipped, and when both are skipped the left nesting counts both and the
  right nesting counts one.
\<close>

theorem FileStats_add_assoc_amended:
  "(FileStats_add (FileStats_add a b) c)\<lparr>skipped := s\<rparr>
     = (FileStats_add a (FileStats_add b c))\<lparr>skipped := s\<rparr>
   \<and> (0 \<le> skipped b \<longrightarrow>
        (FileStats_add (FileStats_add a b) c = FileStats_add a (FileStats_add b c))
        = (skipped b = 0 \<or> skipped c = 0))
   \<and> (skipped b \<noteq> 0 \<and> skipped c \<noteq> 0 \<and> 0 \<le> skipped b \<longrightarrow>
        skipped (FileStats_add (FileStats_add a b) c) = skipped a + 2
        \<and> skipped (FileStats_add a (FileStats_add b c)) = skipped a + 1)"
proof (intro conjI impI)
  show "(FileStats_add (FileStats_add a b) c)\<lparr>skipped := s\<rparr>
     = (FileStats_add a (FileStats_add b c))\<lparr>skipped := s\<rparr>"
    by (rule FileStats_add_assoc_but_skipped)
  show "(FileStats_add (FileStats_add a b) c = FileStats_add a (FileStats_add b c))
        = (skipped b = 0 \<or> skipped c = 0)" if nn: "0 \<le> skipped b"
  proof
    assume "FileStats_add (FileStats_add a b) c = FileStats_add a (FileStats_add b c)"
    then have "skipped (FileStats_add (FileStats_add a b) c)
               = skipped (FileStats_add a (FileStats_add b c))" by simp
    then show "skipped b = 0 \<or> skipped c = 0"
      using nn by (simp add: skipped_add split: if_splits)
  next
    assume z: "skipped b = 0 \<or> skipped c = 0"
    have sk: "skipped (FileStats_add (FileStats_add a b) c)
              = skipped (FileStats_add a (FileStats_add b c))"
      using z by (auto simp: skipped_add)
    have "FileStats_add (FileStats_add a b) c
          = (FileStats_add (FileStats_add a b) c)
              \<lparr>skipped := skipped (FileStats_add (FileStats_add a b) c)\<rparr>"
      by simp
    also have "\<dots> = (FileStats_add a (FileStats_add b c))
              \<lparr>skipped := skipped (FileStats_add (FileStats_add a b) c)\<rparr>"
      by (rule FileStats_add_assoc_but_skipped)
    also have "\<dots> = FileStats_add a (FileStats_add b c)"
      by (simp add: sk)
    finally show "FileStats_add (FileStats_add a b) c = FileStats_add a (FileStats_add b c)" .
  qed
  show "skipped (FileStats_add (FileStats_add a b) c) = skipped a + 2"
    if "skipped b \<noteq> 0 \<and> skipped c \<noteq> 0 \<and> 0 \<le> skipped b"
    using that by (simp add: skipped_add)
  show "skipped (FileStats_add a (FileStats_add b c)) = skipped a + 1"
    if "skipped b \<noteq> 0 \<and> skipped c \<noteq> 0 \<and> 0 \<le> skipped b"
    using that by (simp add: skipped_add)
qed

theorem FileStats_add_assoc_witness:
  "0 \<le> skipped (calculate_stats scenario_env (s2u ''/proj/a.txt'') (s2u ''/proj''))
   \<and> skipped (calculate_stats scenario_env (s2u ''/proj/a.txt'') (s2u ''/proj'')) = 0
   \<and> FileStats_add
        (FileStats_add (calculate_stats scenario_env (s2u ''/proj/img.png'') (s2u ''/proj''))
           (calculate_stats scenario_env (s2u ''/proj/a.txt'') (s2u ''/proj'')))
        (calculate_stats scenario_env (s2u ''/work/blob'') (s2u ''/work''))
      = FileStats_add (calculate_stats scenario_env (s2u ''/proj/img.png'') (s2u ''/proj''))
          (FileStats_add (calculate_stats scenario_env (s2u ''/proj/a.txt'') (s2u ''/proj''))
             (calculate_stats scenario_env (s2u ''/work/blob'') (s2u ''/work'')))
   \<and> 0 \<le> skipped (calculate_stats scenario_env (s2u ''/proj/img.png'') (s2u ''/proj''))
   \<and> skipped (calculate_stats scenario_env (s2u ''/proj/img.png'') (s2u ''/proj'')) \<noteq> 0
   \<and> skipped (calculate_stats scenario_env (s2u ''/work/blob'') (s2u ''/work'')) \<noteq> 0
   \<and> skipped (FileStats_add
        (FileStats_add (calculate_stats scenario_env (s2u ''/proj/a.txt'') (s2u ''/proj''))
           (calculate_stats scenario_env (s2u ''/proj/img.png'') (s2u ''/proj'')))
        (calculate_stats scenario_env (s2u ''/work/blob'') (s2u ''/work''))) = 2"
  using FileStats_add_assoc_amended
    [where a = "calculate_stats scenario_env (s2u ''/proj/img.png'') (s2u ''/proj'')"
       and b = "calculate_stats scenario_env (s2u ''/proj/a.txt'') (s2u ''/proj'')"
       and c = "calculate_stats scenario_env (s2u ''/work/blob'') (s2u ''/work'')"
       and s = 0]
    FileStats_add_assoc_amended
    [where a = "calculate_stats scenario_env (s2u ''/proj/a.txt'') (s2u ''/proj'')"
       and b = "calculate_stats scenario_env (s2u ''/proj/img.png'') (s2u ''/proj'')"
       and c = "calculate_stats scenario_env (s2u ''/work/blob'') (s2u ''/work'')"
       and s = 0]
  by (simp add: calc_a_txt calc_img_png calc_blob)

lemma foldl_add_line_count:
  "line_count (foldl FileStats_add a xs) = line_count a + sum_list (map line_count xs)"
  by (induction xs arbitrary: a) (simp_all add: FileStats_add_def)

lemma foldl_add_char_count:
  "char_count (foldl FileStats_add a xs) = char_count a + sum_list (map char_count xs)"
  by (induction xs arbitrary: a) (simp_all add: FileStats_add_def)

lemma foldl_add_size_bytes:
  "size_bytes (foldl FileStats_add a xs) = size_bytes a + sum_list (map size_bytes xs)"
  by (induction xs arbitrary: a) (simp_all add: FileStats_add_def)

lemma sum_list_map_mset:
  "mset xs = mset ys \<Longrightarrow> sum_list (map f xs) = sum_list (map (f :: 'a \<Rightarrow> int) ys)"
proof -
  assume "mset xs = mset ys"
  then have "mset (map f xs) = mset (map f ys)" by (metis mset_map)
  then have "sum_mset (mset (map f xs)) = sum_mset (mset (map f ys))" by simp
  then show ?thesis by (simp only: sum_mset_sum_list)
qed

text \<open>
  C6: folding the records of a list into a fresh \<open>FileStats()\<close>, and folding any
  permutation of the list (the same multiset of records), gives the same total line
  count, character count and size.
\<close>

theorem merge_totals_permutation:
  assumes "mset xs = mset ys"
  shows "line_count (foldl FileStats_add (FileStats_init e None None) xs)
           = line_count (foldl FileStats_add (FileStats_init e None None) ys)
       \<and> char_count (foldl FileStats_add (FileStats_init e None None) xs)
           = char_count (foldl FileStats_add (FileStats_init e None None) ys)
       \<and> size_bytes (foldl FileStats_add (FileStats_init e None None) xs)
           = size_bytes (foldl FileStats_add (FileStats_init e None None) ys)"
  using assms
  by (simp add: foldl_add_line_count foldl_add_char_count foldl_add_size_bytes
      sum_list_map_mset [OF assms])

theorem merge_totals_permutation_witness:
  "mset [calculate_stats scenario_env (s2u ''/proj/a.txt'') (s2u ''/proj''),
         calculate_stats scenario_env (s2u ''/proj/img.png'') (s2u ''/proj'')]
   = mset [calculate_stats scenario_env (s2u ''/proj/img.png'') (s2u ''/proj''),
           calculate_stats scenario_env (s2u ''/proj/a.txt'') (s2u ''/proj'')]
   \<and> size_bytes (foldl FileStats_add (FileStats_init scenario_env None None)
        [calculate_stats scenario_env (s2u ''/proj/a.txt'') (s2u ''/proj''),
         calculate_stats scenario_env (s2u ''/proj/img.png'') (s2u ''/proj'')])
     = size_bytes (foldl FileStats_add (FileStats_init scenario_env None None)
        [calculate_stats scenario_env (s2u ''/proj/img.png'') (s2u ''/proj''),
         calculate_stats scenario_env (s2u ''/proj/a.txt'') (s2u ''/proj'')])"
proof -
  have m: "mset [calculate_stats scenario_env (s2u ''/proj/a.txt'') (s2u ''/proj''),
         calculate_stats scenario_env (s2u ''/proj/img.png'') (s2u ''/proj'')]
   = mset [calculate_stats scenario_env (s2u ''/proj/img.png'') (s2u ''/proj''),
           calculate_stats scenario_env (s2u ''/proj/a.txt'') (s2u ''/proj'')]"
    by (simp add: add_mset_commute)
  show ?thesis
    using m merge_totals_permutation [OF m, of scenario_env] by blast
qed

lemma lookup_words:
  "lookup scenario_env (s2u ''/work/words.txt'') = Some (File (ascii_file ''Foo foo, bar''))"
  by (simp add: lookup_def scenario_env_def s2u_def os_path_isabs_def py_startswith_def)

lemma lookup_secret:
  "lookup scenario_env (s2u ''/work/secret.txt'') = Some (File unreadable_file)"
  by (simp add: lookup_def scenario_env_def s2u_def os_path_isabs_def py_startswith_def)

lemma lookup_gone: "lookup scenario_env (s2u ''/work/gone'') = Some Dangling"
  by (simp add: lookup_def scenario_env_def s2u_def os_path_isabs_def py_startswith_def)

lemma init_words:
  "FileStats_init scenario_env (Some (s2u ''/work/words.txt'')) (Some (s2u ''/work''))
   = \<lparr>filepath = Some (s2u ''/work/words.txt''), relpath = Some (s2u ''words.txt''),
      filename = s2u ''words.txt'', count_files = 0, size_bytes = 0, disk_usage = 0,
      char_count = 0, char_count_no_space = 0, line_count = 0, word_counter = [],
      lines_lengths = [], extensions = [], skipped = 0, stats_summary = None,
      complexity_avg = 0, complexity_max = 0, functions_count = 0\<rparr>"
  by (simp add: FileStats_init_def scenario_env_def path_defs s2u_def)

lemma init_secret:
  "FileStats_init scenario_env (Some (s2u ''/work/secret.txt'')) (Some (s2u ''/work''))
   = \<lparr>filepath = Some (s2u ''/work/secret.txt''), relpath = Some (s2u ''secret.txt''),
      filename = s2u ''secret.txt'', count_files = 0, size_bytes = 0, disk_usage = 0,
      char_count = 0, char_count_no_space = 0, line_count = 0, word_counter = [],
      lines_lengths = [], extensions = [], skipped = 0, stats_summary = None,
      complexity_avg = 0, complexity_max = 0, functions_count = 0\<rparr>"
  by (simp add: FileStats_init_def scenario_env_def path_defs s2u_def)

lemma init_gone:
  "FileStats_init scenario_env (Some (s2u ''/work/gone'')) (Some (s2u ''/work''))
   = \<lparr>filepath = Some (s2u ''/work/gone''), relpath = Some (s2u ''gone''),
      filename = s2u ''gone'', count_files = 0, size_bytes = 0, disk_usage = 0,
      char_count = 0, char_count_no_space = 0, line_count = 0, word_counter = [],
      lines_lengths = [], extensions = [], skipped = 0, stats_summary = None,
      complexity_avg = 0, complexity_max = 0, functions_count = 0\<rparr>"
  by (simp add: FileStats_init_def scenario_env_def path_defs s2u_def)

lemma binary_words: "\<not> is_binary_file scenario_env (s2u ''/work/words.txt'')"
  unfolding is_binary_file_def read_chunk_def lookup_words
  by (simp add: path_defs s2u_def BINARY_EXTENSIONS_def py_lower_def ascii_file_def)

lemma binary_secret: "is_binary_file scenario_env (s2u ''/work/secret.txt'')"
  unfolding is_binary_file_def read_chunk_def lookup_secret
  by (simp add: path_defs s2u_def BINARY_EXTENSIONS_def py_lower_def unreadable_file_def)

lemma calc_words:
  "calculate_stats scenario_env (s2u ''/work/words.txt'') (s2u ''/work'')
   = \<lparr>filepath = Some (s2u ''/work/words.txt''), relpath = Some (s2u ''words.txt''),
      filename = s2u ''words.txt'', count_files = 1, size_bytes = 12, disk_usage = 4096,
      char_count = 12, char_count_no_space = 10, line_count = 1,
      word_counter = [(s2u ''Foo'', 1), (s2u ''foo'', 1), (s2u ''bar'', 1)],
      lines_lengths = [12], extensions = [(s2u ''.txt'', 1)], skipped = 0,
      stats_summary = Some \<lparr>min_len = 12, max_len = 12, mean_len = 12, median_len = 12\<rparr>,
      complexity_avg = 0, complexity_max = 0, functions_count = 0\<rparr>"
  unfolding calculate_stats_def init_words os_stat_def read_text_def lookup_words
  apply (simp add: binary_words)
  apply (simp add: ascii_file_def s2u_def Let_def os_path_splitext_def os_path_basename_def
      py_lower_def py_splitlines_def py_split_def string_punctuation_def
      string_whitespace_def is_space_def is_linebreak_def counter_update_iter_def
      analyze_complexity_def scenario_env_def get_list_stats_def round2_def
      median_sorted_def BLOCK_SIZE_def)
  done

lemma calc_secret:
  "calculate_stats scenario_env (s2u ''/work/secret.txt'') (s2u ''/work'')
   = \<lparr>filepath = Some (s2u ''/work/secret.txt''), relpath = Some (s2u ''secret.txt''),
      filename = s2u ''secret.txt'', count_files = 1, size_bytes = 120, disk_usage = 4096,
      char_count = 0, char_count_no_space = 0, line_count = 0, word_counter = [],
      lines_lengths = [], extensions = [(s2u ''.txt'', 1)], skipped = 1,
      stats_summary = None, complexity_avg = 0, complexity_max = 0, functions_count = 0\<rparr>"
  unfolding calculate_stats_def init_secret os_stat_def lookup_secret
  apply (simp add: binary_secret)
  apply (simp add: unreadable_file_def s2u_def Let_def os_path_splitext_def
      os_path_basename_def py_lower_def)
  done

lemma calc_gone:
  "calculate_stats scenario_env (s2u ''/work/gone'') (s2u ''/work'')
   = \<lparr>filepath = Some (s2u ''/work/gone''), relpath = Some (s2u ''gone''),
      filename = s2u ''gone'', count_files = 1, size_bytes = 0, disk_usage = 0,
      char_count = 0, char_count_no_space = 0, line_count = 0, word_counter = [],
      lines_lengths = [], extensions = [], skipped = 0,
      stats_summary = None, complexity_avg = 0, complexity_max = 0, functions_count = 0\<rparr>"
  unfolding calculate_stats_def init_gone os_stat_def lookup_gone
  by simp

section \<open>Measurement: what each branch leaves in the record\<close>



lemma analyze_complexity_fields:
  "line_count (analyze_complexity e p s) = line_count s"
  "lines_lengths (analyze_complexity e p s) = lines_lengths s"
  "word_counter (analyze_complexity e p s) = word_counter s"
  "skipped (analyze_complexity e p s) = skipped s"
  "char_count (analyze_complexity e p s) = char_count s"
  "char_count_no_space (analyze_complexity e p s) = char_count_no_space s"
  "stats_summary (analyze_complexity e p s) = stats_summary s"
  "count_files (analyze_complexity e p s) = count_files s"
  "size_bytes (analyze_complexity e p s) = size_bytes s"
  "extensions (analyze_complexity e p s) = extensions s"
  by (simp_all add: analyze_complexity_def Let_def split: option.splits)



lemma read_chunk_Inr_iff:
  "(read_chunk e p = Inr chunk)
   = (\<exists>f bs. lookup e p = Some (File f) \<and> f_bytes f = Some bs \<and> chunk = take 1024 bs)"
  by (auto simp: read_chunk_def split: option.splits node.splits)

lemma read_chunk_Inr_stat: "read_chunk e p = Inr chunk \<Longrightarrow> \<exists>st. os_stat e p = Inr st"
  by (auto simp: read_chunk_def os_stat_def split: option.splits node.splits)

lemma is_binary_file_iff:
  "is_binary_file e p
   = (py_lower (snd (os_path_splitext p)) \<in> set BINARY_EXTENSIONS
      \<or> read_chunk e p = Inl OSError
      \<or> (\<exists>c. read_chunk e p = Inr c \<and> CHR 0x00 \<in> set c))"
proof (cases "read_chunk e p")
  case (Inl x)
  then show ?thesis by (cases x) (simp_all add: is_binary_file_def Let_def read_chunk_def split: option.splits node.splits)
next
  case (Inr c)
  then show ?thesis by (simp add: is_binary_file_def Let_def)
qed

lemma calculate_stats_binary:
  assumes "is_binary_file e p" and "os_stat e p = Inr st"
  shows "skipped (calculate_stats e p r) = 1
     \<and> char_count (calculate_stats e p r) = 0
     \<and> char_count_no_space (calculate_stats e p r) = 0
     \<and> line_count (calculate_stats e p r) = 0
     \<and> lines_lengths (calculate_stats e p r) = []
     \<and> word_counter (calculate_stats e p r) = []
     \<and> stats_summary (calculate_stats e p r) = None
     \<and> size_bytes (calculate_stats e p r) = st_size st"
  using assms by (simp add: calculate_stats_def Let_def FileStats_init_def)




lemma counter_get_add:
  "counter_get (counter_add c k n) w = counter_get c w + (if w = k then n else 0)"
  by (induction c) (auto simp: counter_get_def)

lemma counter_get_update_iter:
  "counter_get (counter_update_iter c ws) w = counter_get c w + int (count_list ws w)"
  unfolding counter_update_iter_def
  by (induction ws arbitrary: c) (auto simp: counter_get_add)

lemma counter_add_distinct:
  "distinct (map fst c) \<Longrightarrow> distinct (map fst (counter_add c k n))"
  by (simp add: counter_add_map_fst)

lemma counter_update_iter_distinct:
  "distinct (map fst c) \<Longrightarrow> distinct (map fst (counter_update_iter c ws))"
  unfolding counter_update_iter_def
  by (induction ws arbitrary: c) (simp_all add: counter_add_distinct)

lemma counter_update_iter_keys:
  "fst ` set (counter_update_iter c ws) = fst ` set c \<union> set ws"
  unfolding counter_update_iter_def
  by (induction ws arbitrary: c) (auto simp: counter_add_keys)

lemma split_from_words:
  assumes "\<forall>c\<in>set cur. \<not> is_space c" and "w \<in> set (split_from cur s)"
  shows "w \<noteq> [] \<and> (\<forall>c\<in>set w. \<not> is_space c \<and> (c \<in> set cur \<or> c \<in> set s))"
  using assms
proof (induction s arbitrary: cur)
  case Nil
  then show ?case by (simp split: if_splits)
next
  case (Cons c cs)
  show ?case
  proof (cases "is_space c")
    case True
    then have "(w = cur \<and> cur \<noteq> []) \<or> w \<in> set (split_from [] cs)"
      using Cons.prems(2) by (simp split: if_splits)
    then show ?thesis
    proof
      assume "w = cur \<and> cur \<noteq> []"
      then show ?thesis using Cons.prems(1) by simp
    next
      assume "w \<in> set (split_from [] cs)"
      then have "w \<noteq> [] \<and> (\<forall>x\<in>set w. \<not> is_space x \<and> (x \<in> set [] \<or> x \<in> set cs))"
        using Cons.IH [of "[]"] by simp
      then show ?thesis by simp
    qed
  next
    case False
    then have "w \<in> set (split_from (cur @ [c]) cs)"
      using Cons.prems(2) by simp
    moreover have "\<forall>x\<in>set (cur @ [c]). \<not> is_space x"
      using False Cons.prems(1) by simp
    ultimately have "w \<noteq> [] \<and> (\<forall>x\<in>set w. \<not> is_space x \<and> (x \<in> set (cur @ [c]) \<or> x \<in> set cs))"
      using Cons.IH [of "cur @ [c]"] by blast
    then show ?thesis by auto
  qed
qed

lemma split_from_concat:
  "concat (split_from cur s) = cur @ filter (\<lambda>c. \<not> is_space c) s"
  by (induction s arbitrary: cur) simp_all
lemma punctuation_not_32: "32 \<notin> set string_punctuation"
  by (simp add: string_punctuation_def)

lemma calculate_stats_word_counter:
  assumes "os_stat e p = Inr st" and "\<not> is_binary_file e p" and "read_text e p = Inr content"
  shows "word_counter (calculate_stats e p r)
         = counter_update_iter []
             (py_split (map (\<lambda>c. if c \<in> set string_punctuation then 32 else c) content))"
  using assms
  by (simp add: calculate_stats_def Let_def FileStats_init_def analyze_complexity_fields)

lemma counter_get_Nil: "counter_get [] w = 0"
  by (simp add: counter_get_def)

lemma is_space_32: "is_space 32"
  by (simp add: is_space_def)

lemma chunk_blob:
  "read_chunk scenario_env (s2u ''/work/blob'')
   = Inr [CHR 0x89, CHR ''P'', CHR ''N'', CHR ''G'', CHR 0x0D, CHR 0x0A, CHR 0x1A, CHR 0x0A,
          CHR 0x00]"
  unfolding read_chunk_def lookup_blob by (simp add: binary_file_def)

lemma stat_secret:
  "os_stat scenario_env (s2u ''/work/secret.txt'') = Inr \<lparr>st_size = 120, st_blocks = Some 8\<rparr>"
  unfolding os_stat_def lookup_secret by (simp add: unreadable_file_def)


section \<open>The length of the line list\<close>

text \<open>
  C10: every record \<open>calculate_stats\<close> returns has as many entries in \<open>lines_lengths\<close>
  as its \<open>line_count\<close> says; both are zero for a skipped (binary or unreadable) file
  and for one \<open>os.stat\<close> fails on; and \<open>FileStats.add\<close> keeps the invariant: merging
  two records that satisfy it gives a record whose \<open>line_count\<close> is the length of its
  \<open>lines_lengths\<close>, the two lists concatenated.
\<close>

theorem lines_lengths_invariant:
  "int (length (lines_lengths (calculate_stats e p r))) = line_count (calculate_stats e p r)
   \<and> (skipped (calculate_stats e p r) \<noteq> 0 \<or> os_stat e p = Inl OSError \<longrightarrow>
        line_count (calculate_stats e p r) = 0 \<and> lines_lengths (calculate_stats e p r) = [])
   \<and> (int (length (lines_lengths a)) = line_count a
        \<and> int (length (lines_lengths b)) = line_count b \<longrightarrow>
        int (length (lines_lengths (FileStats_add a b))) = line_count (FileStats_add a b)
        \<and> lines_lengths (FileStats_add a b) = lines_lengths a @ lines_lengths b)"
proof (intro conjI impI)
  show "int (length (lines_lengths (calculate_stats e p r))) = line_count (calculate_stats e p r)"
    by (simp add: calculate_stats_def Let_def FileStats_init_def analyze_complexity_fields
        split: sum.splits)
  show "line_count (calculate_stats e p r) = 0"
    if "skipped (calculate_stats e p r) \<noteq> 0 \<or> os_stat e p = Inl OSError"
    using that
    by (auto simp add: calculate_stats_def Let_def FileStats_init_def analyze_complexity_fields
        split: sum.splits if_splits)
  show "lines_lengths (calculate_stats e p r) = []"
    if "skipped (calculate_stats e p r) \<noteq> 0 \<or> os_stat e p = Inl OSError"
    using that
    by (auto simp add: calculate_stats_def Let_def FileStats_init_def analyze_complexity_fields
        split: sum.splits if_splits)
  show "int (length (lines_lengths (FileStats_add a b))) = line_count (FileStats_add a b)"
    if "int (length (lines_lengths a)) = line_count a
        \<and> int (length (lines_lengths b)) = line_count b"
    using that by (simp add: FileStats_add_def)
  show "lines_lengths (FileStats_add a b) = lines_lengths a @ lines_lengths b"
    by (simp add: FileStats_add_def)
qed


theorem lines_lengths_invariant_witness:
  "skipped (calculate_stats scenario_env (s2u ''/proj/img.png'') (s2u ''/proj'')) \<noteq> 0
   \<and> line_count (calculate_stats scenario_env (s2u ''/proj/img.png'') (s2u ''/proj'')) = 0
   \<and> lines_lengths (calculate_stats scenario_env (s2u ''/proj/img.png'') (s2u ''/proj'')) = []
   \<and> int (length (lines_lengths
         (calculate_stats scenario_env (s2u ''/proj/a.txt'') (s2u ''/proj''))))
       = line_count (calculate_stats scenario_env (s2u ''/proj/a.txt'') (s2u ''/proj''))
   \<and> line_count (calculate_stats scenario_env (s2u ''/proj/a.txt'') (s2u ''/proj'')) = 3
   \<and> int (length (lines_lengths
         (FileStats_add (calculate_stats scenario_env (s2u ''/proj/a.txt'') (s2u ''/proj''))
            (calculate_stats scenario_env (s2u ''/work/words.txt'') (s2u ''/work'')))))
       = line_count
           (FileStats_add (calculate_stats scenario_env (s2u ''/proj/a.txt'') (s2u ''/proj''))
              (calculate_stats scenario_env (s2u ''/work/words.txt'') (s2u ''/work'')))"
proof -
  have h1: "skipped (calculate_stats scenario_env (s2u ''/proj/img.png'') (s2u ''/proj'')) \<noteq> 0"
    by (simp add: calc_img_png)
  have h2: "int (length (lines_lengths
         (calculate_stats scenario_env (s2u ''/proj/a.txt'') (s2u ''/proj''))))
       = line_count (calculate_stats scenario_env (s2u ''/proj/a.txt'') (s2u ''/proj''))"
    by (simp add: calc_a_txt)
  have h3: "int (length (lines_lengths
         (calculate_stats scenario_env (s2u ''/work/words.txt'') (s2u ''/work''))))
       = line_count (calculate_stats scenario_env (s2u ''/work/words.txt'') (s2u ''/work''))"
    by (simp add: calc_words)
  have h4: "line_count (calculate_stats scenario_env (s2u ''/proj/a.txt'') (s2u ''/proj'')) = 3"
    by (simp add: calc_a_txt)
  show ?thesis
    using h1 h2 h3 h4 lines_lengths_invariant
      [of scenario_env "s2u ''/proj/img.png''" "s2u ''/proj''"
          "calculate_stats scenario_env (s2u ''/proj/a.txt'') (s2u ''/proj'')"
          "calculate_stats scenario_env (s2u ''/work/words.txt'') (s2u ''/work'')"]
    by blast
qed

section \<open>Binary classification\<close>

text \<open>
  C7: a file whose first 1024 bytes hold a null byte is classified binary whatever its
  extension, and \<open>calculate_stats\<close> marks it skipped and leaves every text metric at
  zero; the chunk read is the first 1024 bytes of a file that can be opened;
  \<open>is_binary_file\<close> holds exactly when the lower-cased extension is in
  \<open>BINARY_EXTENSIONS\<close>, or the file cannot be opened, or the chunk holds a null byte;
  and every file classified binary that \<open>os.stat\<close> succeeds on is marked skipped with
  its text metrics at zero.
\<close>

theorem binary_classification:
  "(read_chunk e p = Inr chunk \<and> CHR 0x00 \<in> set chunk \<longrightarrow>
      is_binary_file e p
      \<and> skipped (calculate_stats e p r) = 1
      \<and> char_count (calculate_stats e p r) = 0
      \<and> char_count_no_space (calculate_stats e p r) = 0
      \<and> line_count (calculate_stats e p r) = 0
      \<and> lines_lengths (calculate_stats e p r) = []
      \<and> word_counter (calculate_stats e p r) = []
      \<and> stats_summary (calculate_stats e p r) = None)
   \<and> ((read_chunk e p = Inr chunk)
        = (\<exists>f bs. lookup e p = Some (File f) \<and> f_bytes f = Some bs \<and> chunk = take 1024 bs))
   \<and> (is_binary_file e p
        = (py_lower (snd (os_path_splitext p)) \<in> set BINARY_EXTENSIONS
           \<or> read_chunk e p = Inl OSError
           \<or> (\<exists>c. read_chunk e p = Inr c \<and> CHR 0x00 \<in> set c)))
   \<and> (is_binary_file e p \<and> os_stat e p = Inr st \<longrightarrow>
      skipped (calculate_stats e p r) = 1
      \<and> char_count (calculate_stats e p r) = 0
      \<and> char_count_no_space (calculate_stats e p r) = 0
      \<and> line_count (calculate_stats e p r) = 0
      \<and> lines_lengths (calculate_stats e p r) = []
      \<and> word_counter (calculate_stats e p r) = []
      \<and> stats_summary (calculate_stats e p r) = None)"
proof (intro conjI)
  show "read_chunk e p = Inr chunk \<and> CHR 0x00 \<in> set chunk \<longrightarrow>
      is_binary_file e p
      \<and> skipped (calculate_stats e p r) = 1
      \<and> char_count (calculate_stats e p r) = 0
      \<and> char_count_no_space (calculate_stats e p r) = 0
      \<and> line_count (calculate_stats e p r) = 0
      \<and> lines_lengths (calculate_stats e p r) = []
      \<and> word_counter (calculate_stats e p r) = []
      \<and> stats_summary (calculate_stats e p r) = None"
  proof
    assume h: "read_chunk e p = Inr chunk \<and> CHR 0x00 \<in> set chunk"
    then have b: "is_binary_file e p" by (auto simp: is_binary_file_iff)
    obtain st' where "os_stat e p = Inr st'" using h read_chunk_Inr_stat by blast
    then show "is_binary_file e p
      \<and> skipped (calculate_stats e p r) = 1
      \<and> char_count (calculate_stats e p r) = 0
      \<and> char_count_no_space (calculate_stats e p r) = 0
      \<and> line_count (calculate_stats e p r) = 0
      \<and> lines_lengths (calculate_stats e p r) = []
      \<and> word_counter (calculate_stats e p r) = []
      \<and> stats_summary (calculate_stats e p r) = None"
      using b calculate_stats_binary [of e p st' r] by simp
  qed
  show "(read_chunk e p = Inr chunk)
        = (\<exists>f bs. lookup e p = Some (File f) \<and> f_bytes f = Some bs \<and> chunk = take 1024 bs)"
    by (rule read_chunk_Inr_iff)
  show "is_binary_file e p
        = (py_lower (snd (os_path_splitext p)) \<in> set BINARY_EXTENSIONS
           \<or> read_chunk e p = Inl OSError
           \<or> (\<exists>c. read_chunk e p = Inr c \<and> CHR 0x00 \<in> set c))"
    by (rule is_binary_file_iff)
  show "is_binary_file e p \<and> os_stat e p = Inr st \<longrightarrow>
      skipped (calculate_stats e p r) = 1
      \<and> char_count (calculate_stats e p r) = 0
      \<and> char_count_no_space (calculate_stats e p r) = 0
      \<and> line_count (calculate_stats e p r) = 0
      \<and> lines_lengths (calculate_stats e p r) = []
      \<and> word_counter (calculate_stats e p r) = []
      \<and> stats_summary (calculate_stats e p r) = None"
    using calculate_stats_binary [of e p st r] by simp
qed



theorem binary_classification_witness:
  "read_chunk scenario_env (s2u ''/work/blob'')
     = Inr [CHR 0x89, CHR ''P'', CHR ''N'', CHR ''G'', CHR 0x0D, CHR 0x0A, CHR 0x1A, CHR 0x0A,
            CHR 0x00]
   \<and> CHR 0x00 \<in> set [CHR 0x89, CHR ''P'', CHR ''N'', CHR ''G'', CHR 0x0D, CHR 0x0A, CHR 0x1A,
                       CHR 0x0A, CHR 0x00]
   \<and> is_binary_file scenario_env (s2u ''/work/blob'')
   \<and> skipped (calculate_stats scenario_env (s2u ''/work/blob'') (s2u ''/work'')) = 1
   \<and> line_count (calculate_stats scenario_env (s2u ''/work/blob'') (s2u ''/work'')) = 0
   \<and> is_binary_file scenario_env (s2u ''/work/secret.txt'')
   \<and> os_stat scenario_env (s2u ''/work/secret.txt'')
       = Inr \<lparr>st_size = 120, st_blocks = Some 8\<rparr>
   \<and> skipped (calculate_stats scenario_env (s2u ''/work/secret.txt'') (s2u ''/work'')) = 1"
proof -
  have h1: "CHR 0x00 \<in> set [CHR 0x89, CHR ''P'', CHR ''N'', CHR ''G'', CHR 0x0D, CHR 0x0A,
                              CHR 0x1A, CHR 0x0A, CHR 0x00]"
    by simp
  show ?thesis
    using h1 chunk_blob stat_secret binary_secret
      binary_classification
        [of scenario_env "s2u ''/work/blob''"
            "[CHR 0x89, CHR ''P'', CHR ''N'', CHR ''G'', CHR 0x0D, CHR 0x0A, CHR 0x1A,
              CHR 0x0A, CHR 0x00]"
            "s2u ''/work''" "\<lparr>st_size = 9, st_blocks = Some 8\<rparr>"]
      binary_classification
        [of scenario_env "s2u ''/work/secret.txt''" "[]" "s2u ''/work''"
            "\<lparr>st_size = 120, st_blocks = Some 8\<rparr>"]
    by blast
qed

section \<open>The word table\<close>

text \<open>
  C5, as stated, fails: of \<open>Foo foo, bar\<close> the table holds \<open>Foo\<close> and \<open>foo\<close> under two
  keys, though they differ only in letter case.
\<close>

theorem word_table_counterexample:
  "word_counter (calculate_stats scenario_env (s2u ''/work/words.txt'') (s2u ''/work''))
     = [(s2u ''Foo'', 1), (s2u ''foo'', 1), (s2u ''bar'', 1)]
   \<and> s2u ''Foo'' \<noteq> s2u ''foo''
   \<and> py_lower (s2u ''Foo'') = py_lower (s2u ''foo'')"
  unfolding calc_words by (simp add: s2u_def py_lower_def)


text \<open>
  C5, amended: for a file that is measured as text, the table counts, for every word
  \<open>w\<close>, the occurrences of exactly \<open>w\<close> in the list obtained by replacing each
  punctuation character by a space and splitting on whitespace; its keys are distinct
  and are the words of that list; the words, joined, are the characters of the
  replaced text that are not whitespace, unchanged and in order (no case folding);
  and every word is non-empty and made of characters of the file that are neither
  punctuation nor whitespace.
\<close>

theorem word_table:
  assumes "os_stat e p = Inr st" and "\<not> is_binary_file e p" and "read_text e p = Inr content"
  shows "(\<forall>w. counter_get (word_counter (calculate_stats e p r)) w
            = int (count_list
                (py_split (map (\<lambda>c. if c \<in> set string_punctuation then 32 else c) content)) w))
     \<and> distinct (map fst (word_counter (calculate_stats e p r)))
     \<and> fst ` set (word_counter (calculate_stats e p r))
         = set (py_split (map (\<lambda>c. if c \<in> set string_punctuation then 32 else c) content))
     \<and> concat (py_split (map (\<lambda>c. if c \<in> set string_punctuation then 32 else c) content))
         = filter (\<lambda>c. \<not> is_space c)
             (map (\<lambda>c. if c \<in> set string_punctuation then 32 else c) content)
     \<and> (\<forall>w \<in> set (py_split (map (\<lambda>c. if c \<in> set string_punctuation then 32 else c) content)).
           w \<noteq> [] \<and> (\<forall>c\<in>set w. c \<in> set content \<and> c \<notin> set string_punctuation
                                   \<and> \<not> is_space c))"
proof -
  define t where "t = map (\<lambda>c. if c \<in> set string_punctuation then 32 else c) content"
  have wc: "word_counter (calculate_stats e p r) = counter_update_iter [] (py_split t)"
    unfolding t_def by (rule calculate_stats_word_counter [OF assms])
  have a: "\<forall>w. counter_get (word_counter (calculate_stats e p r)) w
             = int (count_list (py_split t) w)"
    by (simp add: wc counter_get_update_iter counter_get_Nil)
  have b: "distinct (map fst (word_counter (calculate_stats e p r)))"
    by (simp add: wc counter_update_iter_distinct)
  have c: "fst ` set (word_counter (calculate_stats e p r)) = set (py_split t)"
    by (simp add: wc counter_update_iter_keys)
  have d: "concat (py_split t) = filter (\<lambda>c. \<not> is_space c) t"
    by (simp add: py_split_def split_from_concat)
  have e: "\<forall>w \<in> set (py_split t).
             w \<noteq> [] \<and> (\<forall>c\<in>set w. c \<in> set content \<and> c \<notin> set string_punctuation
                                     \<and> \<not> is_space c)"
  proof
    fix w assume w: "w \<in> set (py_split t)"
    have sp: "w \<noteq> [] \<and> (\<forall>c\<in>set w. \<not> is_space c \<and> (c \<in> set [] \<or> c \<in> set t))"
      using w split_from_words [of "[]" w t] by (simp add: py_split_def)
    have "c \<in> set content \<and> c \<notin> set string_punctuation" if "c \<in> set w" for c
    proof -
      have ns: "\<not> is_space c" and ct: "c \<in> set t" using sp that by auto
      obtain x where x: "x \<in> set content"
        and cx: "c = (if x \<in> set string_punctuation then 32 else x)"
        using ct unfolding t_def by auto
      have "x \<notin> set string_punctuation"
        using cx ns is_space_32 by (cases "x \<in> set string_punctuation") auto
      then show ?thesis using x cx by simp
    qed
    then show "w \<noteq> [] \<and> (\<forall>c\<in>set w. c \<in> set content \<and> c \<notin> set string_punctuation
                                     \<and> \<not> is_space c)"
      using sp by auto
  qed
  show ?thesis using a b c d e unfolding t_def by blast
qed

lemma stat_words:
  "os_stat scenario_env (s2u ''/work/words.txt'') = Inr \<lparr>st_size = 12, st_blocks = Some 8\<rparr>"
  unfolding os_stat_def lookup_words by (simp add: ascii_file_def)

lemma read_words:
  "read_text scenario_env (s2u ''/work/words.txt'') = Inr (s2u ''Foo foo, bar'')"
  unfolding read_text_def lookup_words by (simp add: ascii_file_def)

theorem word_table_witness:
  "os_stat scenario_env (s2u ''/work/words.txt'') = Inr \<lparr>st_size = 12, st_blocks = Some 8\<rparr>
   \<and> \<not> is_binary_file scenario_env (s2u ''/work/words.txt'')
   \<and> read_text scenario_env (s2u ''/work/words.txt'') = Inr (s2u ''Foo foo, bar'')
   \<and> fst ` set (word_counter
        (calculate_stats scenario_env (s2u ''/work/words.txt'') (s2u ''/work'')))
      = set (py_split (map (\<lambda>c. if c \<in> set string_punctuation then 32 else c)
               (s2u ''Foo foo, bar'')))
   \<and> distinct (map fst (word_counter
        (calculate_stats scenario_env (s2u ''/work/words.txt'') (s2u ''/work''))))"
  using word_table [OF stat_words binary_words read_words, of "s2u ''/work''"]
    stat_words binary_words read_words
  by blast

lemma lizard_update_frame:
  "lookup (e\<lparr>lizard := x\<rparr>) p = lookup e p"
  "os_stat (e\<lparr>lizard := x\<rparr>) p = os_stat e p"
  "read_chunk (e\<lparr>lizard := x\<rparr>) p = read_chunk e p"
  "read_text (e\<lparr>lizard := x\<rparr>) p = read_text e p"
  "is_binary_file (e\<lparr>lizard := x\<rparr>) p = is_binary_file e p"
  "FileStats_init (e\<lparr>lizard := x\<rparr>) fp rd = FileStats_init e fp rd"
  by (simp_all add: lookup_def os_stat_def read_chunk_def read_text_def is_binary_file_def
      FileStats_init_def split: option.splits)

lemma analyze_complexity_absent:
  "lizard e = None \<Longrightarrow> analyze_complexity e p s = s"
  by (simp add: analyze_complexity_def)

text \<open>
  The record before the probe runs is the record of the same run without a probe;
  the probe runs on the text path only.
\<close>

lemma calculate_stats_text:
  assumes "os_stat e p = Inr st" and "\<not> is_binary_file e p" and "read_text e p = Inr content"
  shows "calculate_stats e p r
         = analyze_complexity e p (calculate_stats (e\<lparr>lizard := None\<rparr>) p r)"
  unfolding calculate_stats_def
  by (simp add: assms lizard_update_frame Let_def
      analyze_complexity_absent [of "e\<lparr>lizard := None\<rparr>"])

lemma calculate_stats_stat_fails:
  assumes "os_stat e p = Inl x"
  shows "calculate_stats e p r = (FileStats_init e (Some p) (Some r))\<lparr>count_files := 1\<rparr>"
  unfolding calculate_stats_def by (simp add: assms)

lemma calculate_stats_skipped:
  assumes "os_stat e p = Inr st" and "is_binary_file e p \<or> read_text e p = Inl y"
  shows "calculate_stats e p r
         = (FileStats_init e (Some p) (Some r))
             \<lparr>count_files := 1, size_bytes := st_size st,
              disk_usage :=
                (case st_blocks st of
                   Some b \<Rightarrow> b * 512
                 | None \<Rightarrow> ((st_size st + BLOCK_SIZE - 1) div BLOCK_SIZE) * BLOCK_SIZE),
              extensions :=
                [(if py_lower (snd (os_path_splitext p)) = [] then s2u ''no_ext''
                  else py_lower (snd (os_path_splitext p)), 1)],
              skipped := 1\<rparr>"
proof (cases "is_binary_file e p")
  case True
  then show ?thesis
    unfolding calculate_stats_def
    by (simp add: assms(1) Let_def FileStats_init_def split: option.splits)
next
  case False
  then have "read_text e p = Inl y" using assms(2) by simp
  then show ?thesis
    unfolding calculate_stats_def
    by (simp add: assms(1) False Let_def FileStats_init_def split: option.splits)
qed

lemma calculate_stats_nontext:
  assumes "os_stat e p = Inl x \<or> is_binary_file e p \<or> read_text e p = Inl y"
  shows "calculate_stats e p r = calculate_stats (e\<lparr>lizard := z\<rparr>) p r"
proof (cases "os_stat e p")
  case (Inl a)
  then show ?thesis
    by (simp add: calculate_stats_stat_fails [of _ _ a] lizard_update_frame)
next
  case (Inr st)
  then have b: "is_binary_file e p \<or> read_text e p = Inl y" using assms by simp
  have "calculate_stats (e\<lparr>lizard := z\<rparr>) p r
        = (FileStats_init (e\<lparr>lizard := z\<rparr>) (Some p) (Some r))
             \<lparr>count_files := 1, size_bytes := st_size st,
              disk_usage :=
                (case st_blocks st of
                   Some b \<Rightarrow> b * 512
                 | None \<Rightarrow> ((st_size st + BLOCK_SIZE - 1) div BLOCK_SIZE) * BLOCK_SIZE),
              extensions :=
                [(if py_lower (snd (os_path_splitext p)) = [] then s2u ''no_ext''
                  else py_lower (snd (os_path_splitext p)), 1)],
              skipped := 1\<rparr>"
    by (rule calculate_stats_skipped [where y = y]) (simp_all add: lizard_update_frame Inr b)
  then show ?thesis
    using calculate_stats_skipped [OF Inr b, of r] by (simp add: lizard_update_frame)
qed

lemma calculate_stats_complexity_zero:
  assumes "lizard e = None"
  shows "functions_count (calculate_stats e p r) = 0
     \<and> complexity_avg (calculate_stats e p r) = 0
     \<and> complexity_max (calculate_stats e p r) = 0
     \<and> (skipped (calculate_stats e p r) = 0 \<or> skipped (calculate_stats e p r) = 1)"
proof (cases "os_stat e p")
  case (Inl a)
  then show ?thesis
    by (simp add: calculate_stats_stat_fails [of _ _ a] FileStats_init_def)
next
  case (Inr st)
  show ?thesis
  proof (cases "is_binary_file e p")
    case True
    then show ?thesis
      using calculate_stats_skipped [of e p st OSError r] Inr
      by (simp add: FileStats_init_def)
  next
    case False
    show ?thesis
    proof (cases "read_text e p")
      case (Inl y)
      then show ?thesis
        using calculate_stats_skipped [of e p st y r] Inr
        by (simp add: FileStats_init_def)
    next
      case (Inr content)
      then show ?thesis
        unfolding calculate_stats_def
        by (simp add: \<open>os_stat e p = Inr st\<close> False Let_def FileStats_init_def
            analyze_complexity_absent [OF assms])
    qed
  qed
qed
lemma lizard_None_update: "lizard e = None \<Longrightarrow> e\<lparr>lizard := None\<rparr> = e"
  by (cases e) simp

lemma os_stat_Inl: "os_stat e p = Inl x \<Longrightarrow> x = OSError"
  by (simp add: os_stat_def split: option.splits node.splits)

lemma read_text_Inl: "read_text e p = Inl x \<Longrightarrow> x = OSError"
  by (simp add: read_text_def split: option.splits node.splits)

lemma functions_count_same: "functions_count s = 0 \<Longrightarrow> s\<lparr>functions_count := 0\<rparr> = s"
  by (cases s) simp

lemma analyze_no_function:
  assumes "functions_count s = 0"
  shows "analyze_complexity (e\<lparr>lizard := Some probe_no_function\<rparr>) p s = s"
  by (simp add: analyze_complexity_def probe_no_function_def functions_count_same [OF assms]
      assms)

lemma measured_cases:
  obtains (stat_fails) "os_stat e p = Inl OSError"
  | (skipped) st where "os_stat e p = Inr st"
      and "is_binary_file e p \<or> read_text e p = Inl OSError"
  | (measured) st content where "os_stat e p = Inr st" and "\<not> is_binary_file e p"
      and "read_text e p = Inr content"
proof (cases "os_stat e p")
  case (Inl a)
  then show ?thesis using os_stat_Inl [OF Inl] stat_fails by simp
next
  case st: (Inr st)
  show ?thesis
  proof (cases "is_binary_file e p")
    case True
    then show ?thesis using st skipped by blast
  next
    case False
    show ?thesis
    proof (cases "read_text e p")
      case (Inl y)
      then show ?thesis using read_text_Inl [OF Inl] st skipped by blast
    next
      case (Inr content)
      then show ?thesis using st False measured by blast
    qed
  qed
qed

lemma calculate_stats_no_function:
  assumes "lizard e = None"
  shows "calculate_stats (e\<lparr>lizard := Some probe_no_function\<rparr>) p r = calculate_stats e p r"
proof (cases e p rule: measured_cases)
  case stat_fails
  then show ?thesis
    using calculate_stats_nontext [of e p OSError OSError r "Some probe_no_function"] by simp
next
  case (skipped st)
  then show ?thesis
    using calculate_stats_nontext [of e p OSError OSError r "Some probe_no_function"] by auto
next
  case (measured st content)
  have "calculate_stats (e\<lparr>lizard := Some probe_no_function\<rparr>) p r
        = analyze_complexity (e\<lparr>lizard := Some probe_no_function\<rparr>) p
            (calculate_stats (e\<lparr>lizard := Some probe_no_function, lizard := None\<rparr>) p r)"
    by (rule calculate_stats_text [where st = st and content = content])
       (simp_all add: lizard_update_frame measured)
  also have "\<dots> = analyze_complexity (e\<lparr>lizard := Some probe_no_function\<rparr>) p
                     (calculate_stats e p r)"
    by (simp add: lizard_None_update [OF assms])
  also have "\<dots> = calculate_stats e p r"
    using calculate_stats_complexity_zero [OF assms, of p r]
    by (simp add: analyze_no_function)
  finally show ?thesis .
qed

lemma round2_0: "round2 0 = 0"
  by (simp add: round2_def)

lemma to_dict_no_functions:
  assumes "lizard e = None" and "functions_count s = 0"
  shows "FileStats_to_dict (e\<lparr>lizard := x\<rparr>) s = FileStats_to_dict e s"
  by (simp add: FileStats_to_dict_def HAS_LIZARD_def Let_def assms)

lemma to_dict_analyze_zero:
  assumes "lizard e = None" and "functions_count s = 0" and "complexity_avg s = 0"
    and "complexity_max s = 0"
  shows "FileStats_to_dict (e\<lparr>lizard := Some probe_zero\<rparr>)
           (analyze_complexity (e\<lparr>lizard := Some probe_zero\<rparr>) p s)
         = FileStats_to_dict e s"
  by (simp add: FileStats_to_dict_def HAS_LIZARD_def Let_def assms analyze_complexity_def
      probe_zero_def round2_0)

lemma to_dict_probe_zero:
  assumes "lizard e = None"
  shows "FileStats_to_dict (e\<lparr>lizard := Some probe_zero\<rparr>)
           (calculate_stats (e\<lparr>lizard := Some probe_zero\<rparr>) p r)
         = FileStats_to_dict e (calculate_stats e p r)"
proof (cases e p rule: measured_cases)
  case stat_fails
  then have "calculate_stats (e\<lparr>lizard := Some probe_zero\<rparr>) p r = calculate_stats e p r"
    using calculate_stats_nontext [of e p OSError OSError r "Some probe_zero"] by simp
  then show ?thesis
    using calculate_stats_complexity_zero [OF assms, of p r]
    by (simp add: to_dict_no_functions [OF assms])
next
  case (skipped st)
  then have "calculate_stats (e\<lparr>lizard := Some probe_zero\<rparr>) p r = calculate_stats e p r"
    using calculate_stats_nontext [of e p OSError OSError r "Some probe_zero"] by auto
  then show ?thesis
    using calculate_stats_complexity_zero [OF assms, of p r]
    by (simp add: to_dict_no_functions [OF assms])
next
  case (measured st content)
  have "calculate_stats (e\<lparr>lizard := Some probe_zero\<rparr>) p r
        = analyze_complexity (e\<lparr>lizard := Some probe_zero\<rparr>) p
            (calculate_stats (e\<lparr>lizard := Some probe_zero, lizard := None\<rparr>) p r)"
    by (rule calculate_stats_text [where st = st and content = content])
       (simp_all add: lizard_update_frame measured)
  also have "\<dots> = analyze_complexity (e\<lparr>lizard := Some probe_zero\<rparr>) p
                     (calculate_stats e p r)"
    by (simp add: lizard_None_update [OF assms])
  finally show ?thesis
    using calculate_stats_complexity_zero [OF assms, of p r]
    by (simp add: to_dict_analyze_zero [OF assms])
qed

lemma to_dict_absent:
  assumes "lizard e = None"
  shows "d_complexity_avg (FileStats_to_dict e s) = 0
     \<and> d_complexity_max (FileStats_to_dict e s) = 0"
  using assms by (simp add: FileStats_to_dict_def HAS_LIZARD_def Let_def)

lemma scenario_lizard: "lizard scenario_env = None"
  by (simp add: scenario_env_def)

lemma stat_a_txt:
  "os_stat scenario_env (s2u ''/proj/a.txt'') = Inr \<lparr>st_size = 11, st_blocks = Some 8\<rparr>"
  unfolding os_stat_def lookup_a_txt by (simp add: ascii_file_def)

lemma read_a_txt:
  "read_text scenario_env (s2u ''/proj/a.txt'')
   = Inr (s2u (''a b c'' @ [CHR 0x0A] @ ''d e'' @ [CHR 0x0A] @ ''f''))"
  unfolding read_text_def lookup_a_txt by (simp add: ascii_file_def)

lemma calculate_stats_text_skipped:
  assumes "os_stat e p = Inr st" and "\<not> is_binary_file e p" and "read_text e p = Inr content"
  shows "skipped (calculate_stats e p r) = 0"
  unfolding calculate_stats_def
  by (simp add: assms Let_def FileStats_init_def analyze_complexity_fields)

lemma lines_skipped_a_txt:
  "skipped (calculate_stats scenario_env (s2u ''/proj/a.txt'') (s2u ''/proj'')) = 0"
  by (rule calculate_stats_text_skipped [OF stat_a_txt binary_a_txt read_a_txt])

lemma probe_zero_counts:
  "functions_count (calculate_stats (scenario_env\<lparr>lizard := Some probe_zero\<rparr>)
     (s2u ''/proj/a.txt'') (s2u ''/proj'')) = 1"
proof -
  have "calculate_stats (scenario_env\<lparr>lizard := Some probe_zero\<rparr>)
          (s2u ''/proj/a.txt'') (s2u ''/proj'')
        = analyze_complexity (scenario_env\<lparr>lizard := Some probe_zero\<rparr>) (s2u ''/proj/a.txt'')
            (calculate_stats (scenario_env\<lparr>lizard := Some probe_zero, lizard := None\<rparr>)
               (s2u ''/proj/a.txt'') (s2u ''/proj''))"
    by (rule calculate_stats_text
          [where st = "\<lparr>st_size = 11, st_blocks = Some 8\<rparr>"
             and content = "s2u (''a b c'' @ [CHR 0x0A] @ ''d e'' @ [CHR 0x0A] @ ''f'')"])
       (simp_all add: lizard_update_frame stat_a_txt read_a_txt binary_a_txt)
  also have "\<dots> = analyze_complexity (scenario_env\<lparr>lizard := Some probe_zero\<rparr>)
                     (s2u ''/proj/a.txt'')
                     (calculate_stats scenario_env (s2u ''/proj/a.txt'') (s2u ''/proj''))"
    by (simp add: lizard_None_update [OF scenario_lizard])
  finally show ?thesis
    using calculate_stats_complexity_zero [OF scenario_lizard, of "s2u ''/proj/a.txt''" "s2u ''/proj''"]
      lines_skipped_a_txt
    by (simp add: analyze_complexity_def probe_zero_def)
qed
section \<open>Complexity without the probe\<close>

text \<open>
  C4, as stated, fails: without the probe, the record of \<open>a.txt\<close> is the very record a
  probe that finds no function leaves, and its dictionary is the very dictionary of
  a record on which a probe measured one function of complexity zero.
\<close>

theorem complexity_not_computed_counterexample:
  "\<not> HAS_LIZARD scenario_env
   \<and> HAS_LIZARD (scenario_env\<lparr>lizard := Some probe_no_function\<rparr>)
   \<and> calculate_stats (scenario_env\<lparr>lizard := Some probe_no_function\<rparr>)
        (s2u ''/proj/a.txt'') (s2u ''/proj'')
      = calculate_stats scenario_env (s2u ''/proj/a.txt'') (s2u ''/proj'')
   \<and> HAS_LIZARD (scenario_env\<lparr>lizard := Some probe_zero\<rparr>)
   \<and> functions_count (calculate_stats (scenario_env\<lparr>lizard := Some probe_zero\<rparr>)
        (s2u ''/proj/a.txt'') (s2u ''/proj'')) = 1
   \<and> FileStats_to_dict (scenario_env\<lparr>lizard := Some probe_zero\<rparr>)
        (calculate_stats (scenario_env\<lparr>lizard := Some probe_zero\<rparr>)
           (s2u ''/proj/a.txt'') (s2u ''/proj''))
      = FileStats_to_dict scenario_env
          (calculate_stats scenario_env (s2u ''/proj/a.txt'') (s2u ''/proj''))"
  using probe_zero_counts calculate_stats_no_function [OF scenario_lizard]
    to_dict_probe_zero [OF scenario_lizard]
  by (simp add: HAS_LIZARD_def scenario_lizard)

text \<open>
  C4, amended: when the probe is absent, every record \<open>calculate_stats\<close> returns has
  \<open>functions_count\<close>, \<open>complexity_avg\<close> and \<open>complexity_max\<close> equal to the number 0, and
  the dictionary of any record has \<open>complexity_avg\<close> and \<open>complexity_max\<close> equal to 0;
  the record is the one a probe that finds no function would leave, and the
  dictionary is the one of a measured complexity of zero. The record carries no
  mark of its own that the complexity was not computed.
\<close>

theorem complexity_not_computed:
  assumes "lizard e = None"
  shows "functions_count (calculate_stats e p r) = 0
     \<and> complexity_avg (calculate_stats e p r) = 0
     \<and> complexity_max (calculate_stats e p r) = 0
     \<and> d_complexity_avg (FileStats_to_dict e s) = 0
     \<and> d_complexity_max (FileStats_to_dict e s) = 0
     \<and> calculate_stats (e\<lparr>lizard := Some probe_no_function\<rparr>) p r = calculate_stats e p r
     \<and> FileStats_to_dict (e\<lparr>lizard := Some probe_zero\<rparr>)
          (calculate_stats (e\<lparr>lizard := Some probe_zero\<rparr>) p r)
        = FileStats_to_dict e (calculate_stats e p r)"
  using calculate_stats_complexity_zero [OF assms] to_dict_absent [OF assms]
    calculate_stats_no_function [OF assms] to_dict_probe_zero [OF assms]
  by blast

theorem complexity_not_computed_witness:
  "lizard scenario_env = None
   \<and> functions_count (calculate_stats scenario_env (s2u ''/proj/a.txt'') (s2u ''/proj'')) = 0
   \<and> complexity_avg (calculate_stats scenario_env (s2u ''/proj/a.txt'') (s2u ''/proj'')) = 0
   \<and> complexity_max (calculate_stats scenario_env (s2u ''/proj/a.txt'') (s2u ''/proj'')) = 0
   \<and> d_complexity_max (FileStats_to_dict scenario_env
        (calculate_stats scenario_env (s2u ''/proj/a.txt'') (s2u ''/proj''))) = 0"
  using scenario_lizard
    complexity_not_computed [OF scenario_lizard, of "s2u ''/proj/a.txt''" "s2u ''/proj''"
      "calculate_stats scenario_env (s2u ''/proj/a.txt'') (s2u ''/proj'')"]
  by blast
section \<open>The ignore engine\<close>

lemma match_patterns_isdir:
  assumes "\<forall>pat\<in>set ps. \<not> py_endswith pat [47] \<longrightarrow>
             os_path_isdir e1 (os_path_join rd pat) = os_path_isdir e2 (os_path_join rd pat)"
  shows "match_patterns e1 rd rel nm ps = match_patterns e2 rd rel nm ps"
  using assms by (induction ps) (auto simp: Let_def)

lemma lookup_build:
  "lookup scenario_env (s2u ''/work/build'')
   = Some (Dir dir_stat [(s2u ''out.txt'', File (ascii_file ''x''))])"
  by (simp add: lookup_def scenario_env_def s2u_def os_path_isabs_def py_startswith_def)

lemma lookup_empty_build: "lookup empty_env (s2u ''/work/build'') = None"
  by (simp add: lookup_def empty_env_def s2u_def os_path_isabs_def py_startswith_def)

lemma relpath_build_out:
  "os_path_relpath (s2u ''/'') (s2u ''/work/build/out.txt'') (s2u ''/work'')
   = Inr (s2u ''build/out.txt'')"
  by (simp add: path_defs s2u_def)

lemma build_patterns_scenario:
  "match_patterns scenario_env (s2u ''/work'') (s2u ''build/out.txt'') (s2u ''out.txt'')
     [s2u ''build'']"
  using lookup_build
  by (simp add: Let_def py_rstrip_def fnmatch_def os_path_isdir_def
      os_path_join_def py_startswith_def py_endswith_def s2u_def)

lemma build_patterns_empty:
  "\<not> match_patterns empty_env (s2u ''/work'') (s2u ''build/out.txt'') (s2u ''out.txt'')
     [s2u ''build'']"
  using lookup_empty_build
  by (simp add: Let_def py_rstrip_def fnmatch_def os_path_isdir_def
      os_path_join_def py_startswith_def py_endswith_def s2u_def)

text \<open>
  C3, as stated, fails: with the one pattern \<open>build\<close> and the root \<open>/work\<close>, the path
  \<open>/work/build/out.txt\<close> is ignored where \<open>/work/build\<close> is a directory on disk and
  is not ignored on an empty disk; path, patterns, root and working directory are
  the same.
\<close>

theorem is_ignored_pure_counterexample:
  "cwd scenario_env = cwd empty_env
   \<and> is_ignored scenario_env \<lparr>root_dir = s2u ''/work'', patterns = [s2u ''build'']\<rparr>
        (s2u ''/work/build/out.txt'')
   \<and> \<not> is_ignored empty_env \<lparr>root_dir = s2u ''/work'', patterns = [s2u ''build'']\<rparr>
        (s2u ''/work/build/out.txt'')"
proof -
  have c1: "cwd scenario_env = s2u ''/''" by (simp add: scenario_env_def)
  have c2: "cwd empty_env = s2u ''/''" by (simp add: empty_env_def)
  have bn: "os_path_basename (s2u ''/work/build/out.txt'') = s2u ''out.txt''"
    by (simp add: os_path_basename_def s2u_def)
  show ?thesis
    unfolding is_ignored_def
    using build_patterns_scenario build_patterns_empty
    by (simp add: c1 c2 relpath_build_out bn)
qed

text \<open>
  C3, amended: \<open>is_ignored\<close> is a function of the path, the pattern list, the root,
  the working directory, and of which of the patterns that do not end in \<open>/\<close> name
  an existing directory under the root: two evaluations in environments that agree
  on these return the same boolean.
\<close>

theorem is_ignored_depends_on:
  assumes "cwd e1 = cwd e2"
    and "\<forall>pat\<in>set (patterns m). \<not> py_endswith pat [47] \<longrightarrow>
           os_path_isdir e1 (os_path_join (root_dir m) pat)
           = os_path_isdir e2 (os_path_join (root_dir m) pat)"
  shows "is_ignored e1 m p = is_ignored e2 m p"
  unfolding is_ignored_def Let_def
  using match_patterns_isdir [OF assms(2)] by (simp add: assms(1))

theorem is_ignored_depends_on_witness:
  "cwd scenario_env = cwd empty_env
   \<and> os_path_isdir scenario_env (os_path_join (s2u ''/work'') (s2u ''*.png''))
       = os_path_isdir empty_env (os_path_join (s2u ''/work'') (s2u ''*.png''))
   \<and> py_endswith (s2u ''dist/'') [47]
   \<and> is_ignored scenario_env
        \<lparr>root_dir = s2u ''/work'', patterns = [s2u ''dist/'', s2u ''*.png'']\<rparr>
        (s2u ''/work/dist/app.js'')
     = is_ignored empty_env
        \<lparr>root_dir = s2u ''/work'', patterns = [s2u ''dist/'', s2u ''*.png'']\<rparr>
        (s2u ''/work/dist/app.js'')"
proof -
  have c: "cwd scenario_env = cwd empty_env"
    by (simp add: scenario_env_def empty_env_def)
  have d: "os_path_isdir scenario_env (os_path_join (s2u ''/work'') (s2u ''*.png''))
       = os_path_isdir empty_env (os_path_join (s2u ''/work'') (s2u ''*.png''))"
    by (simp add: os_path_isdir_def lookup_def scenario_env_def empty_env_def s2u_def
        os_path_isabs_def os_path_join_def py_startswith_def py_endswith_def)
  have s: "py_endswith (s2u ''dist/'') [47]"
    by (simp add: py_endswith_def s2u_def)
  have h: "\<forall>pat\<in>set (patterns \<lparr>root_dir = s2u ''/work'',
                                  patterns = [s2u ''dist/'', s2u ''*.png'']\<rparr>).
             \<not> py_endswith pat [47] \<longrightarrow>
             os_path_isdir scenario_env
               (os_path_join (root_dir \<lparr>root_dir = s2u ''/work'',
                                        patterns = [s2u ''dist/'', s2u ''*.png'']\<rparr>) pat)
             = os_path_isdir empty_env
               (os_path_join (root_dir \<lparr>root_dir = s2u ''/work'',
                                        patterns = [s2u ''dist/'', s2u ''*.png'']\<rparr>) pat)"
    using d s by simp
  show ?thesis
    using c d s is_ignored_depends_on [OF c h, of "s2u ''/work/dist/app.js''"] by blast
qed

text \<open>
  C8: with the single pattern \<open>dist/\<close>, whatever the file system and the working
  directory, a path whose root-relative form is \<open>dist/app.js\<close> or \<open>dist/sub/x.txt\<close>
  is ignored, and the path \<open>distillery/readme.md\<close> (base name \<open>readme.md\<close>) is not.
\<close>

theorem dist_directory_prefix:
  "(os_path_relpath (cwd e) p rd = Inr (s2u ''dist/app.js'') \<longrightarrow>
      is_ignored e \<lparr>root_dir = rd, patterns = [s2u ''dist/'']\<rparr> p)
   \<and> (os_path_relpath (cwd e) p rd = Inr (s2u ''dist/sub/x.txt'') \<longrightarrow>
      is_ignored e \<lparr>root_dir = rd, patterns = [s2u ''dist/'']\<rparr> p)
   \<and> (os_path_relpath (cwd e) p rd = Inr (s2u ''distillery/readme.md'')
        \<and> os_path_basename p = s2u ''readme.md'' \<longrightarrow>
      \<not> is_ignored e \<lparr>root_dir = rd, patterns = [s2u ''dist/'']\<rparr> p)"
proof (intro conjI impI)
  have cp: "py_rstrip 47 (s2u ''dist/'') = s2u ''dist''"
    by (simp add: py_rstrip_def s2u_def)
  have ew: "py_endswith (s2u ''dist/'') [47]"
    by (simp add: py_endswith_def s2u_def)
  show "is_ignored e \<lparr>root_dir = rd, patterns = [s2u ''dist/'']\<rparr> p"
    if "os_path_relpath (cwd e) p rd = Inr (s2u ''dist/app.js'')"
    unfolding is_ignored_def
    by (simp add: that Let_def cp ew) (simp add: py_startswith_def s2u_def)
  show "is_ignored e \<lparr>root_dir = rd, patterns = [s2u ''dist/'']\<rparr> p"
    if "os_path_relpath (cwd e) p rd = Inr (s2u ''dist/sub/x.txt'')"
    unfolding is_ignored_def
    by (simp add: that Let_def cp ew) (simp add: py_startswith_def s2u_def)
  show "\<not> is_ignored e \<lparr>root_dir = rd, patterns = [s2u ''dist/'']\<rparr> p"
    if "os_path_relpath (cwd e) p rd = Inr (s2u ''distillery/readme.md'')
        \<and> os_path_basename p = s2u ''readme.md''"
    unfolding is_ignored_def
    by (simp add: that Let_def cp ew) (simp add: py_startswith_def fnmatch_def s2u_def)
qed

theorem dist_directory_prefix_witness:
  "os_path_relpath (cwd scenario_env) (s2u ''/proj/dist/app.js'') (s2u ''/proj'')
     = Inr (s2u ''dist/app.js'')
   \<and> is_ignored scenario_env \<lparr>root_dir = s2u ''/proj'', patterns = [s2u ''dist/'']\<rparr>
        (s2u ''/proj/dist/app.js'')
   \<and> os_path_relpath (cwd scenario_env) (s2u ''/proj/dist/sub/x.txt'') (s2u ''/proj'')
     = Inr (s2u ''dist/sub/x.txt'')
   \<and> is_ignored scenario_env \<lparr>root_dir = s2u ''/proj'', patterns = [s2u ''dist/'']\<rparr>
        (s2u ''/proj/dist/sub/x.txt'')
   \<and> os_path_relpath (cwd scenario_env) (s2u ''/proj/distillery/readme.md'') (s2u ''/proj'')
     = Inr (s2u ''distillery/readme.md'')
   \<and> os_path_basename (s2u ''/proj/distillery/readme.md'') = s2u ''readme.md''
   \<and> \<not> is_ignored scenario_env \<lparr>root_dir = s2u ''/proj'', patterns = [s2u ''dist/'']\<rparr>
        (s2u ''/proj/distillery/readme.md'')"
proof -
  have r1: "os_path_relpath (cwd scenario_env) (s2u ''/proj/dist/app.js'') (s2u ''/proj'')
     = Inr (s2u ''dist/app.js'')"
    by (simp add: scenario_env_def path_defs s2u_def)
  have r2: "os_path_relpath (cwd scenario_env) (s2u ''/proj/dist/sub/x.txt'') (s2u ''/proj'')
     = Inr (s2u ''dist/sub/x.txt'')"
    by (simp add: scenario_env_def path_defs s2u_def)
  have r3: "os_path_relpath (cwd scenario_env) (s2u ''/proj/distillery/readme.md'')
              (s2u ''/proj'') = Inr (s2u ''distillery/readme.md'')"
    by (simp add: scenario_env_def path_defs s2u_def)
  have b3: "os_path_basename (s2u ''/proj/distillery/readme.md'') = s2u ''readme.md''"
    by (simp add: os_path_basename_def s2u_def)
  show ?thesis
    using r1 r2 r3 b3
      dist_directory_prefix [of scenario_env "s2u ''/proj/dist/app.js''" "s2u ''/proj''"]
      dist_directory_prefix [of scenario_env "s2u ''/proj/dist/sub/x.txt''" "s2u ''/proj''"]
      dist_directory_prefix [of scenario_env "s2u ''/proj/distillery/readme.md''" "s2u ''/proj''"]
    by blast
qed

section \<open>The scan and its failures\<close>

lemma calculate_stats_count: "count_files (calculate_stats e p r) = 1"
proof (cases e p rule: measured_cases)
  case stat_fails
  then show ?thesis by (simp add: calculate_stats_stat_fails [of e p OSError])
next
  case (skipped st)
  then show ?thesis by (simp add: calculate_stats_skipped [of e p st OSError])
next
  case (measured st content)
  then show ?thesis
    by (simp add: calculate_stats_text [of e p st content] analyze_complexity_fields
        calculate_stats_nontext)
       (simp add: calculate_stats_def Let_def lizard_update_frame analyze_complexity_absent)
qed

lemma foldl_add_count_files:
  "count_files (foldl FileStats_add a xs) = count_files a + sum_list (map count_files xs)"
  by (induction xs arbitrary: a) (simp_all add: FileStats_add_def)

lemma scan_file_details:
  "all_file_details (foldl (scan_file e m d rootd) s files)
   = all_file_details s
     @ map (\<lambda>p. calculate_stats e p d)
         (filter (\<lambda>p. \<not> is_ignored e m p) (map (os_path_join rootd) files))"
  by (induction files arbitrary: s) (simp_all add: scan_file_def Let_def)

lemma scan_file_total:
  "total_stats (foldl (scan_file e m d rootd) s files)
   = foldl FileStats_add (total_stats s)
       (map (\<lambda>p. calculate_stats e p d)
          (filter (\<lambda>p. \<not> is_ignored e m p) (map (os_path_join rootd) files)))"
  by (induction files arbitrary: s) (simp_all add: scan_file_def Let_def)

lemma scan_dirs_details:
  "all_file_details
     (foldl (\<lambda>s rf. foldl (scan_file e m d (fst rf)) s (snd rf)) s rfs)
   = all_file_details s
     @ map (\<lambda>p. calculate_stats e p d)
         (filter (\<lambda>p. \<not> is_ignored e m p)
            (concat (map (\<lambda>rf. map (os_path_join (fst rf)) (snd rf)) rfs)))"
  by (induction rfs arbitrary: s) (simp_all add: scan_file_details)

lemma scan_dirs_total:
  "total_stats
     (foldl (\<lambda>s rf. foldl (scan_file e m d (fst rf)) s (snd rf)) s rfs)
   = foldl FileStats_add (total_stats s)
       (map (\<lambda>p. calculate_stats e p d)
          (filter (\<lambda>p. \<not> is_ignored e m p)
             (concat (map (\<lambda>rf. map (os_path_join (fst rf)) (snd rf)) rfs))))"
  by (induction rfs arbitrary: s) (simp_all add: scan_file_total)

lemma scan_details:
  "all_file_details (scan e m d)
   = map (\<lambda>p. calculate_stats e p d)
       (filter (\<lambda>p. \<not> is_ignored e m p)
          (concat (map (\<lambda>rf. map (os_path_join (fst rf)) (snd rf))
             (case lookup e d of None \<Rightarrow> [] | Some n \<Rightarrow> os_walk (is_ignored e m) d n))))"
  unfolding scan_def by (simp add: scan_dirs_details)

lemma scan_total:
  "total_stats (scan e m d)
   = foldl FileStats_add (FileStats_init e None None) (all_file_details (scan e m d))"
  unfolding scan_details unfolding scan_def by (simp add: scan_dirs_total)

lemma sum_list_ones:
  "(\<forall>x\<in>set xs. f x = (1::int)) \<Longrightarrow> sum_list (map f xs) = int (length xs)"
  by (induction xs) simp_all

lemma scan_count:
  "count_files (total_stats (scan e m d)) = int (length (all_file_details (scan e m d)))"
proof -
  have "\<forall>x\<in>set (all_file_details (scan e m d)). count_files x = 1"
    unfolding scan_details by (auto simp: calculate_stats_count)
  then have "sum_list (map count_files (all_file_details (scan e m d)))
             = int (length (all_file_details (scan e m d)))"
    by (rule sum_list_ones)
  then show ?thesis
    by (simp add: scan_total foldl_add_count_files FileStats_init_def)
qed

lemma load_lines:
  "foldl load_line ps ls
   = ps @ filter (\<lambda>l. l \<noteq> [] \<and> \<not> py_startswith l [35]) (map py_strip ls)"
  by (induction ls arbitrary: ps) (simp_all add: load_line_def Let_def)

lemma load_patterns_appends:
  "patterns (load_patterns e im f)
   = patterns im
     @ filter (\<lambda>l. l \<noteq> [] \<and> \<not> py_startswith l [35]) (map py_strip (fst (read_lines e f)))
   \<and> root_dir (load_patterns e im f) = root_dir im"
  by (cases "read_lines e f") (simp add: load_patterns_def load_lines Let_def split: option.splits)

lemma main_exit:
  "((\<exists>x. main e t = Inl x) = (\<not> os_path_exists e (os_path_abspath (cwd e) t)))
   \<and> (main e t = Inl x \<longrightarrow> x = SystemExit 1)
   \<and> (os_path_exists e (os_path_abspath (cwd e) t) \<longrightarrow>
        main e t = Inr (scan e (IgnoreMatcher_init e (os_path_abspath (cwd e) t))
                          (os_path_abspath (cwd e) t)))"
  by (auto simp: main_def Let_def)

lemma probe_failure:
  assumes "lizard e = Some f" and "f p = None"
  shows "calculate_stats e p r = calculate_stats (e\<lparr>lizard := None\<rparr>) p r"
proof (cases e p rule: measured_cases)
  case stat_fails
  then show ?thesis
    using calculate_stats_nontext [of e p OSError OSError r None] by simp
next
  case (skipped st)
  then show ?thesis
    using calculate_stats_nontext [of e p OSError OSError r None] by auto
next
  case (measured st content)
  then show ?thesis
    by (simp add: calculate_stats_text [of e p st content] analyze_complexity_def assms)
qed
section \<open>The end-to-end scenario\<close>

lemma cwd_scenario: "cwd scenario_env = s2u ''/''"
  by (simp add: scenario_env_def)

lemma abspath_proj: "os_path_abspath (cwd scenario_env) (s2u ''proj'') = s2u ''/proj''"
  by (simp add: cwd_scenario path_defs s2u_def)

lemma lookup_proj:
  "lookup scenario_env (s2u ''/proj'')
   = Some (Dir dir_stat
       [(s2u ''a.txt'',
           File (ascii_file (''a b c'' @ [CHR 0x0A] @ ''d e'' @ [CHR 0x0A] @ ''f''))),
        (s2u ''img.png'', File binary_file)])"
  by (simp add: lookup_def scenario_env_def s2u_def os_path_isabs_def py_startswith_def)

lemma exists_proj: "os_path_exists scenario_env (s2u ''/proj'')"
  by (simp add: os_path_exists_def lookup_proj)

lemma lookup_global_ignore:
  "lookup scenario_env (s2u ''/tool/.analyzerignore'')
   = Some (File (ascii_file (''*.png'' @ [CHR 0x0A])))"
  by (simp add: lookup_def scenario_env_def s2u_def os_path_isabs_def py_startswith_def)

lemma lookup_proj_gitignore: "lookup scenario_env (s2u ''/proj/.gitignore'') = None"
  by (simp add: lookup_def scenario_env_def s2u_def os_path_isabs_def py_startswith_def)

lemma lookup_proj_analyzerignore: "lookup scenario_env (s2u ''/proj/.analyzerignore'') = None"
  by (simp add: lookup_def scenario_env_def s2u_def os_path_isabs_def py_startswith_def)

lemma join_global:
  "os_path_join (script_dir scenario_env) (s2u ''.analyzerignore'') = s2u ''/tool/.analyzerignore''"
  by (simp add: scenario_env_def os_path_join_def py_startswith_def py_endswith_def s2u_def)

lemma join_proj:
  "os_path_join (s2u ''/proj'') (s2u ''.gitignore'') = s2u ''/proj/.gitignore''"
  "os_path_join (s2u ''/proj'') (s2u ''.analyzerignore'') = s2u ''/proj/.analyzerignore''"
  "os_path_join (s2u ''/proj'') (s2u ''a.txt'') = s2u ''/proj/a.txt''"
  "os_path_join (s2u ''/proj'') (s2u ''img.png'') = s2u ''/proj/img.png''"
  by (simp_all add: os_path_join_def py_startswith_def py_endswith_def s2u_def)

lemma load_global:
  "load_patterns scenario_env \<lparr>root_dir = s2u ''/proj'', patterns = []\<rparr>
     (s2u ''/tool/.analyzerignore'')
   = \<lparr>root_dir = s2u ''/proj'', patterns = [s2u ''*.png'']\<rparr>"
  unfolding load_patterns_def read_lines_def lookup_global_ignore
  by (simp add: ascii_file_def s2u_def load_line_def py_strip_def is_space_def
      py_startswith_def Let_def)

lemma matcher_proj:
  "IgnoreMatcher_init scenario_env (s2u ''/proj'')
   = \<lparr>root_dir = s2u ''/proj'', patterns = [s2u ''*.png'']\<rparr>"
  by (simp add: IgnoreMatcher_init_def Let_def join_global join_proj os_path_exists_def
      lookup_global_ignore lookup_proj_gitignore lookup_proj_analyzerignore load_global)

lemma relpath_proj:
  "os_path_relpath (s2u ''/'') (s2u ''/proj/a.txt'') (s2u ''/proj'') = Inr (s2u ''a.txt'')"
  "os_path_relpath (s2u ''/'') (s2u ''/proj/img.png'') (s2u ''/proj'') = Inr (s2u ''img.png'')"
  by (simp_all add: path_defs s2u_def)

lemma basename_proj:
  "os_path_basename (s2u ''/proj/a.txt'') = s2u ''a.txt''"
  "os_path_basename (s2u ''/proj/img.png'') = s2u ''img.png''"
  by (simp_all add: os_path_basename_def s2u_def)

lemma lookup_proj_star: "lookup scenario_env (s2u ''/proj/*.png'') = None"
  by (simp add: lookup_def scenario_env_def s2u_def os_path_isabs_def py_startswith_def)

lemma not_ignored_a_txt:
  "\<not> is_ignored scenario_env \<lparr>root_dir = s2u ''/proj'', patterns = [s2u ''*.png'']\<rparr>
       (s2u ''/proj/a.txt'')"
  unfolding is_ignored_def
  using lookup_proj_star
  by (simp add: cwd_scenario relpath_proj basename_proj Let_def)
     (simp add: py_rstrip_def fnmatch_def os_path_isdir_def os_path_join_def
        py_startswith_def py_endswith_def s2u_def)

lemma ignored_img_png:
  "is_ignored scenario_env \<lparr>root_dir = s2u ''/proj'', patterns = [s2u ''*.png'']\<rparr>
     (s2u ''/proj/img.png'')"
  unfolding is_ignored_def
  by (simp add: cwd_scenario relpath_proj basename_proj Let_def)
     (simp add: py_rstrip_def fnmatch_def s2u_def)

lemma walk_proj:
  "os_walk ign (s2u ''/proj'')
     (Dir dir_stat
       [(s2u ''a.txt'',
           File (ascii_file (''a b c'' @ [CHR 0x0A] @ ''d e'' @ [CHR 0x0A] @ ''f''))),
        (s2u ''img.png'', File binary_file)])
   = [(s2u ''/proj'', [s2u ''a.txt'', s2u ''img.png''])]"
  by simp

lemma scan_proj:
  "scan scenario_env \<lparr>root_dir = s2u ''/proj'', patterns = [s2u ''*.png'']\<rparr> (s2u ''/proj'')
   = \<lparr>total_stats =
        FileStats_add (FileStats_init scenario_env None None)
          (calculate_stats scenario_env (s2u ''/proj/a.txt'') (s2u ''/proj'')),
      all_file_details = [calculate_stats scenario_env (s2u ''/proj/a.txt'') (s2u ''/proj'')],
      folder_stats_map =
        [(s2u ''/proj'',
          FileStats_add (FileStats_init scenario_env None None)
            (calculate_stats scenario_env (s2u ''/proj/a.txt'') (s2u ''/proj'')))]\<rparr>"
  unfolding scan_def lookup_proj
  by (simp add: walk_proj scan_file_def join_proj not_ignored_a_txt ignored_img_png Let_def)

lemma main_proj:
  "main scenario_env (s2u ''proj'')
   = Inr \<lparr>total_stats =
        FileStats_add (FileStats_init scenario_env None None)
          (calculate_stats scenario_env (s2u ''/proj/a.txt'') (s2u ''/proj'')),
      all_file_details = [calculate_stats scenario_env (s2u ''/proj/a.txt'') (s2u ''/proj'')],
      folder_stats_map =
        [(s2u ''/proj'',
          FileStats_add (FileStats_init scenario_env None None)
            (calculate_stats scenario_env (s2u ''/proj/a.txt'') (s2u ''/proj'')))]\<rparr>"
  unfolding main_def abspath_proj
  by (simp add: exists_proj matcher_proj scan_proj Let_def)

text \<open>
  C2, as stated, fails: the scan of \<open>proj\<close> (exactly \<open>a.txt\<close> and \<open>img.png\<close>) under
  the one pattern \<open>*.png\<close> does not end with a count of 2 and one skipped file.
\<close>

theorem end_to_end_counterexample:
  "\<not> (\<exists>s. main scenario_env (s2u ''proj'') = Inr s
          \<and> count_files (total_stats s) = 2
          \<and> line_count (total_stats s) = 3
          \<and> skipped (total_stats s) = 1)"
  unfolding main_proj
  by (simp add: calc_a_txt FileStats_add_def FileStats_init_def)

text \<open>
  C2, amended: for the root \<open>proj\<close> holding exactly \<open>a.txt\<close> (\<open>a b c\<close>, \<open>d e\<close>, \<open>f\<close>: three
  lines) and the binary \<open>img.png\<close>, scanned with the single pattern \<open>*.png\<close>, the
  pattern excludes \<open>img.png\<close> from the scan: the project totals have count 1,
  line count 3 and no skipped file, and the only record is the one of \<open>a.txt\<close>.
\<close>

theorem end_to_end_scenario:
  "lookup scenario_env (s2u ''/proj'')
     = Some (Dir dir_stat
         [(s2u ''a.txt'',
             File (ascii_file (''a b c'' @ [CHR 0x0A] @ ''d e'' @ [CHR 0x0A] @ ''f''))),
          (s2u ''img.png'', File binary_file)])
   \<and> patterns (IgnoreMatcher_init scenario_env (s2u ''/proj'')) = [s2u ''*.png'']
   \<and> is_ignored scenario_env (IgnoreMatcher_init scenario_env (s2u ''/proj''))
        (s2u ''/proj/img.png'')
   \<and> (\<exists>s. main scenario_env (s2u ''proj'') = Inr s
          \<and> count_files (total_stats s) = 1
          \<and> line_count (total_stats s) = 3
          \<and> skipped (total_stats s) = 0
          \<and> map filename (all_file_details s) = [s2u ''a.txt''])"
  unfolding main_proj matcher_proj
  by (simp add: lookup_proj ignored_img_png calc_a_txt FileStats_add_def FileStats_init_def)
text \<open>
  C9: \<open>main\<close> exits exactly when the target does not exist, with \<open>sys.exit(1)\<close> and
  before the matcher is built or anything is walked; otherwise it returns the state
  of the finished scan. The scan holds one record for every file of the walk that
  is not ignored, whatever happened while measuring it, and the totals are the
  fold of those records, each counted once. A file \<open>os.stat\<close> fails on gives the
  record built so far; a file that cannot be opened or read gives a record marked
  skipped with its size and extension; a probe that raises leaves the record as
  without a probe. \<open>load_patterns\<close> keeps the patterns gathered so far and appends
  those of the lines it could read, whether or not the reading ended in an
  exception.
\<close>

theorem failure_containment:
  "((\<exists>x. main e t = Inl x) = (\<not> os_path_exists e (os_path_abspath (cwd e) t)))
   \<and> (main e t = Inl x \<longrightarrow> x = SystemExit 1)
   \<and> (os_path_exists e (os_path_abspath (cwd e) t) \<longrightarrow>
        main e t = Inr (scan e (IgnoreMatcher_init e (os_path_abspath (cwd e) t))
                          (os_path_abspath (cwd e) t)))
   \<and> all_file_details (scan e m d)
       = map (\<lambda>p. calculate_stats e p d)
           (filter (\<lambda>p. \<not> is_ignored e m p)
              (concat (map (\<lambda>rf. map (os_path_join (fst rf)) (snd rf))
                 (case lookup e d of None \<Rightarrow> []
                  | Some n \<Rightarrow> os_walk (is_ignored e m) d n))))
   \<and> total_stats (scan e m d)
       = foldl FileStats_add (FileStats_init e None None) (all_file_details (scan e m d))
   \<and> count_files (total_stats (scan e m d)) = int (length (all_file_details (scan e m d)))
   \<and> count_files (calculate_stats e p r) = 1
   \<and> (os_stat e p = Inl OSError \<longrightarrow>
        calculate_stats e p r = (FileStats_init e (Some p) (Some r))\<lparr>count_files := 1\<rparr>)
   \<and> (os_stat e p = Inr st \<and> (is_binary_file e p \<or> read_text e p = Inl OSError) \<longrightarrow>
        calculate_stats e p r
        = (FileStats_init e (Some p) (Some r))
            \<lparr>count_files := 1, size_bytes := st_size st,
             disk_usage :=
               (case st_blocks st of
                  Some b \<Rightarrow> b * 512
                | None \<Rightarrow> ((st_size st + BLOCK_SIZE - 1) div BLOCK_SIZE) * BLOCK_SIZE),
             extensions :=
               [(if py_lower (snd (os_path_splitext p)) = [] then s2u ''no_ext''
                 else py_lower (snd (os_path_splitext p)), 1)],
             skipped := 1\<rparr>)
   \<and> (lizard e = Some f \<and> f p = None \<longrightarrow>
        calculate_stats e p r = calculate_stats (e\<lparr>lizard := None\<rparr>) p r)
   \<and> patterns (load_patterns e im fp)
       = patterns im
         @ filter (\<lambda>l. l \<noteq> [] \<and> \<not> py_startswith l [35])
             (map py_strip (fst (read_lines e fp)))
   \<and> root_dir (load_patterns e im fp) = root_dir im"
proof (intro conjI)
  show "(\<exists>x. main e t = Inl x) = (\<not> os_path_exists e (os_path_abspath (cwd e) t))"
    using main_exit [of e t x] by blast
  show "main e t = Inl x \<longrightarrow> x = SystemExit 1"
    using main_exit [of e t x] by blast
  show "os_path_exists e (os_path_abspath (cwd e) t) \<longrightarrow>
        main e t = Inr (scan e (IgnoreMatcher_init e (os_path_abspath (cwd e) t))
                          (os_path_abspath (cwd e) t))"
    using main_exit [of e t x] by blast
  show "all_file_details (scan e m d)
       = map (\<lambda>p. calculate_stats e p d)
           (filter (\<lambda>p. \<not> is_ignored e m p)
              (concat (map (\<lambda>rf. map (os_path_join (fst rf)) (snd rf))
                 (case lookup e d of None \<Rightarrow> []
                  | Some n \<Rightarrow> os_walk (is_ignored e m) d n))))"
    by (rule scan_details)
  show "total_stats (scan e m d)
       = foldl FileStats_add (FileStats_init e None None) (all_file_details (scan e m d))"
    by (rule scan_total)
  show "count_files (total_stats (scan e m d)) = int (length (all_file_details (scan e m d)))"
    by (rule scan_count)
  show "count_files (calculate_stats e p r) = 1"
    by (rule calculate_stats_count)
  show "os_stat e p = Inl OSError \<longrightarrow>
        calculate_stats e p r = (FileStats_init e (Some p) (Some r))\<lparr>count_files := 1\<rparr>"
    using calculate_stats_stat_fails [of e p OSError r] by blast
  show "os_stat e p = Inr st \<and> (is_binary_file e p \<or> read_text e p = Inl OSError) \<longrightarrow>
        calculate_stats e p r
        = (FileStats_init e (Some p) (Some r))
            \<lparr>count_files := 1, size_bytes := st_size st,
             disk_usage :=
               (case st_blocks st of
                  Some b \<Rightarrow> b * 512
                | None \<Rightarrow> ((st_size st + BLOCK_SIZE - 1) div BLOCK_SIZE) * BLOCK_SIZE),
             extensions :=
               [(if py_lower (snd (os_path_splitext p)) = [] then s2u ''no_ext''
                 else py_lower (snd (os_path_splitext p)), 1)],
             skipped := 1\<rparr>"
    using calculate_stats_skipped [of e p st OSError r] by blast
  show "lizard e = Some f \<and> f p = None \<longrightarrow>
        calculate_stats e p r = calculate_stats (e\<lparr>lizard := None\<rparr>) p r"
    using probe_failure [of e f p r] by blast
  show "patterns (load_patterns e im fp)
       = patterns im
         @ filter (\<lambda>l. l \<noteq> [] \<and> \<not> py_startswith l [35])
             (map py_strip (fst (read_lines e fp)))"
    using load_patterns_appends [of e im fp] by blast
  show "root_dir (load_patterns e im fp) = root_dir im"
    using load_patterns_appends [of e im fp] by blast
qed

lemma stat_gone: "os_stat scenario_env (s2u ''/work/gone'') = Inl OSError"
  unfolding os_stat_def lookup_gone by simp

lemma abspath_nope: "os_path_abspath (cwd scenario_env) (s2u ''nope'') = s2u ''/nope''"
  by (simp add: cwd_scenario path_defs s2u_def)

lemma not_exists_nope: "\<not> os_path_exists scenario_env (s2u ''/nope'')"
  by (simp add: os_path_exists_def lookup_def scenario_env_def s2u_def os_path_isabs_def
      py_startswith_def)

theorem failure_containment_witness:
  "os_path_exists scenario_env (os_path_abspath (cwd scenario_env) (s2u ''proj''))
   \<and> main scenario_env (s2u ''proj'')
       = Inr (scan scenario_env
                (IgnoreMatcher_init scenario_env
                   (os_path_abspath (cwd scenario_env) (s2u ''proj'')))
                (os_path_abspath (cwd scenario_env) (s2u ''proj'')))
   \<and> \<not> os_path_exists scenario_env (os_path_abspath (cwd scenario_env) (s2u ''nope''))
   \<and> main scenario_env (s2u ''nope'') = Inl (SystemExit 1)
   \<and> os_stat scenario_env (s2u ''/work/gone'') = Inl OSError
   \<and> calculate_stats scenario_env (s2u ''/work/gone'') (s2u ''/work'')
       = (FileStats_init scenario_env (Some (s2u ''/work/gone'')) (Some (s2u ''/work'')))
           \<lparr>count_files := 1\<rparr>
   \<and> os_stat scenario_env (s2u ''/work/secret.txt'')
       = Inr \<lparr>st_size = 120, st_blocks = Some 8\<rparr>
   \<and> is_binary_file scenario_env (s2u ''/work/secret.txt'')
   \<and> skipped (calculate_stats scenario_env (s2u ''/work/secret.txt'') (s2u ''/work'')) = 1
   \<and> lizard (scenario_env\<lparr>lizard := Some (\<lambda>p. None)\<rparr>) = Some (\<lambda>p. None)
   \<and> calculate_stats (scenario_env\<lparr>lizard := Some (\<lambda>p. None)\<rparr>)
        (s2u ''/proj/a.txt'') (s2u ''/proj'')
       = calculate_stats (scenario_env\<lparr>lizard := Some (\<lambda>p. None), lizard := None\<rparr>)
           (s2u ''/proj/a.txt'') (s2u ''/proj'')"
proof -
  have ex: "os_path_exists scenario_env (os_path_abspath (cwd scenario_env) (s2u ''proj''))"
    by (simp add: abspath_proj exists_proj)
  have nex: "\<not> os_path_exists scenario_env (os_path_abspath (cwd scenario_env) (s2u ''nope''))"
    by (simp add: abspath_nope not_exists_nope)
  have m1: "main scenario_env (s2u ''proj'')
       = Inr (scan scenario_env
                (IgnoreMatcher_init scenario_env
                   (os_path_abspath (cwd scenario_env) (s2u ''proj'')))
                (os_path_abspath (cwd scenario_env) (s2u ''proj'')))"
    using ex failure_containment [of scenario_env "s2u ''proj''"] by blast
  have "\<exists>x. main scenario_env (s2u ''nope'') = Inl x"
    using nex failure_containment [of scenario_env "s2u ''nope''"] by blast
  then obtain x where x: "main scenario_env (s2u ''nope'') = Inl x" by blast
  then have "x = SystemExit 1"
    using failure_containment [of scenario_env "s2u ''nope''" x] by blast
  then have m2: "main scenario_env (s2u ''nope'') = Inl (SystemExit 1)"
    using x by simp
  have g: "calculate_stats scenario_env (s2u ''/work/gone'') (s2u ''/work'')
       = (FileStats_init scenario_env (Some (s2u ''/work/gone'')) (Some (s2u ''/work'')))
           \<lparr>count_files := 1\<rparr>"
    using stat_gone
      failure_containment [where e = scenario_env and p = "s2u ''/work/gone''"
        and r = "s2u ''/work''"]
    by blast
  have "calculate_stats scenario_env (s2u ''/work/secret.txt'') (s2u ''/work'')
        = (FileStats_init scenario_env (Some (s2u ''/work/secret.txt'')) (Some (s2u ''/work'')))
            \<lparr>count_files := 1, size_bytes := st_size \<lparr>st_size = 120, st_blocks = Some 8\<rparr>,
             disk_usage :=
               (case st_blocks \<lparr>st_size = 120, st_blocks = Some 8\<rparr> of
                  Some b \<Rightarrow> b * 512
                | None \<Rightarrow> ((st_size \<lparr>st_size = 120, st_blocks = Some 8\<rparr> + BLOCK_SIZE - 1)
                            div BLOCK_SIZE) * BLOCK_SIZE),
             extensions :=
               [(if py_lower (snd (os_path_splitext (s2u ''/work/secret.txt''))) = []
                 then s2u ''no_ext''
                 else py_lower (snd (os_path_splitext (s2u ''/work/secret.txt''))), 1)],
             skipped := 1\<rparr>"
    using stat_secret binary_secret
      failure_containment [where e = scenario_env and p = "s2u ''/work/secret.txt''"
        and r = "s2u ''/work''" and st = "\<lparr>st_size = 120, st_blocks = Some 8\<rparr>"]
    by blast
  then have s: "skipped (calculate_stats scenario_env (s2u ''/work/secret.txt'') (s2u ''/work''))
                = 1"
    by simp
  have l: "lizard (scenario_env\<lparr>lizard := Some (\<lambda>p. None)\<rparr>) = Some (\<lambda>p. None)"
    by simp
  have pf: "calculate_stats (scenario_env\<lparr>lizard := Some (\<lambda>p. None)\<rparr>)
        (s2u ''/proj/a.txt'') (s2u ''/proj'')
       = calculate_stats (scenario_env\<lparr>lizard := Some (\<lambda>p. None), lizard := None\<rparr>)
           (s2u ''/proj/a.txt'') (s2u ''/proj'')"
    using l failure_containment [where e = "scenario_env\<lparr>lizard := Some (\<lambda>p. None)\<rparr>"
        and p = "s2u ''/proj/a.txt''" and r = "s2u ''/proj''" and f = "\<lambda>p. None"]
    by blast
  show ?thesis
    using ex m1 nex m2 stat_gone g stat_secret binary_secret s l pf by blast
qed

section \<open>Further properties\<close>

text \<open>
  Blank lines and comment lines never become rules: every pattern after
  \<open>load_patterns\<close> was there before, or is a line of the file, stripped, that is not
  empty and does not start with \<open>#\<close>.
\<close>

theorem loaded_patterns_are_rules:
  "\<forall>l\<in>set (patterns (load_patterns e im fp)).
     l \<in> set (patterns im)
     \<or> (l \<noteq> [] \<and> \<not> py_startswith l [35]
        \<and> (\<exists>raw\<in>set (fst (read_lines e fp)). l = py_strip raw))"
  using load_patterns_appends [of e im fp] by auto

lemma lookup_work_gitignore:
  "lookup scenario_env (s2u ''/work/.gitignore'') = Some (File broken_ignore_file)"
  by (simp add: lookup_def scenario_env_def s2u_def os_path_isabs_def py_startswith_def)

lemma load_work_gitignore:
  "patterns (load_patterns scenario_env \<lparr>root_dir = s2u ''/work'', patterns = []\<rparr>
     (s2u ''/work/.gitignore'')) = [s2u ''dist/'']"
  unfolding load_patterns_def read_lines_def lookup_work_gitignore
  by (simp add: broken_ignore_file_def s2u_def load_line_def py_strip_def is_space_def
      py_startswith_def Let_def)

theorem loaded_patterns_are_rules_witness:
  "s2u ''dist/'' \<in> set (patterns (load_patterns scenario_env
       \<lparr>root_dir = s2u ''/work'', patterns = []\<rparr> (s2u ''/work/.gitignore'')))
   \<and> s2u ''dist/'' \<notin> set (patterns \<lparr>root_dir = s2u ''/work'', patterns = []\<rparr>)
   \<and> s2u ''dist/'' \<noteq> []
   \<and> \<not> py_startswith (s2u ''dist/'') [35]"
proof -
  have a: "s2u ''dist/'' \<in> set (patterns (load_patterns scenario_env
       \<lparr>root_dir = s2u ''/work'', patterns = []\<rparr> (s2u ''/work/.gitignore'')))"
    by (simp add: load_work_gitignore)
  have b: "s2u ''dist/'' \<notin> set (patterns \<lparr>root_dir = s2u ''/work'', patterns = []\<rparr>)"
    by simp
  show ?thesis
    using a b loaded_patterns_are_rules
      [of scenario_env "\<lparr>root_dir = s2u ''/work'', patterns = []\<rparr>" "s2u ''/work/.gitignore''"]
    by blast
qed

lemma glob_match_star_here: "glob_match gs s \<Longrightarrow> glob_match (Star # gs) s"
  by (cases s) simp_all

lemma glob_match_star_suffix: "glob_match gs s \<Longrightarrow> glob_match (Star # gs) (pre @ s)"
  by (induction pre) (simp_all add: glob_match_star_here)

lemma fnmatch_star_log:
  assumes "py_endswith nm (s2u ''.log'')"
  shows "fnmatch nm (s2u ''*.log'')"
proof -
  have d: "drop (length nm - length (s2u ''.log'')) nm = s2u ''.log''"
    using assms by (simp only: py_endswith_def)
  have nm: "take (length nm - length (s2u ''.log'')) nm @ s2u ''.log'' = nm"
    using append_take_drop_id [of "length nm - length (s2u ''.log'')" nm] d by simp
  have "glob_match [Lit 46, Lit 108, Lit 111, Lit 103] (s2u ''.log'')"
    by (simp add: s2u_def)
  then have "glob_match (Star # [Lit 46, Lit 108, Lit 111, Lit 103])
               (take (length nm - length (s2u ''.log'')) nm @ s2u ''.log'')"
    by (rule glob_match_star_suffix)
  then have m: "glob_match [Star, Lit 46, Lit 108, Lit 111, Lit 103] nm"
    by (simp only: nm)
  have "translate (s2u ''*.log'') = [Star, Lit 46, Lit 108, Lit 111, Lit 103]"
    by (simp add: s2u_def)
  then show ?thesis using m by (simp add: fnmatch_def)
qed

lemma match_patterns_name:
  "pat \<in> set ps \<Longrightarrow> fnmatch nm (py_rstrip 47 pat) \<Longrightarrow> match_patterns e rd rel nm ps"
  by (induction ps) (auto simp: Let_def)

text \<open>
  The name-only rule: with the pattern \<open>*.log\<close> among the patterns, every path whose
  base name ends in \<open>.log\<close> is ignored, in whatever directory it lies.
\<close>

theorem name_only_rule:
  assumes "s2u ''*.log'' \<in> set (patterns m)"
    and "py_endswith (os_path_basename p) (s2u ''.log'')"
  shows "is_ignored e m p"
proof -
  have "py_rstrip 47 (s2u ''*.log'') = s2u ''*.log''"
    by (simp add: py_rstrip_def s2u_def)
  then have "fnmatch (os_path_basename p) (py_rstrip 47 (s2u ''*.log''))"
    using fnmatch_star_log [OF assms(2)] by simp
  then show ?thesis
    unfolding is_ignored_def Let_def
    using match_patterns_name [OF assms(1)] by blast
qed

theorem name_only_rule_witness:
  "s2u ''*.log'' \<in> set (patterns \<lparr>root_dir = s2u ''/proj'', patterns = [s2u ''*.log'']\<rparr>)
   \<and> py_endswith (os_path_basename (s2u ''/proj/a.log'')) (s2u ''.log'')
   \<and> is_ignored scenario_env \<lparr>root_dir = s2u ''/proj'', patterns = [s2u ''*.log'']\<rparr>
        (s2u ''/proj/a.log'')
   \<and> py_endswith (os_path_basename (s2u ''/proj/dir/b.log'')) (s2u ''.log'')
   \<and> is_ignored scenario_env \<lparr>root_dir = s2u ''/proj'', patterns = [s2u ''*.log'']\<rparr>
        (s2u ''/proj/dir/b.log'')"
proof -
  have a: "s2u ''*.log''
           \<in> set (patterns \<lparr>root_dir = s2u ''/proj'', patterns = [s2u ''*.log'']\<rparr>)"
    by simp
  have b: "py_endswith (os_path_basename (s2u ''/proj/a.log'')) (s2u ''.log'')"
    by (simp add: py_endswith_def os_path_basename_def s2u_def)
  have c: "py_endswith (os_path_basename (s2u ''/proj/dir/b.log'')) (s2u ''.log'')"
    by (simp add: py_endswith_def os_path_basename_def s2u_def)
  show ?thesis
    using a b c name_only_rule [OF a b, of scenario_env] name_only_rule [OF a c, of scenario_env]
    by blast
qed

text \<open>
  An empty directory: the scan of a target that is a directory without entries ends
  with the totals of \<open>FileStats()\<close>, all zero, no record and no folder, and does not
  exit.
\<close>

theorem empty_directory_scan:
  assumes "lookup e (os_path_abspath (cwd e) t) = Some (Dir st [])"
  shows "main e t
         = Inr \<lparr>total_stats = FileStats_init e None None, all_file_details = [],
                folder_stats_map = []\<rparr>
     \<and> count_files (FileStats_init e None None) = 0
     \<and> size_bytes (FileStats_init e None None) = 0
     \<and> line_count (FileStats_init e None None) = 0
     \<and> char_count (FileStats_init e None None) = 0
     \<and> skipped (FileStats_init e None None) = 0"
  using assms
  by (simp add: main_def Let_def os_path_exists_def scan_def FileStats_init_def)

lemma lookup_empty_root:
  "lookup empty_env (os_path_abspath (cwd empty_env) (s2u ''/'')) = Some (Dir dir_stat [])"
  by (simp add: lookup_def empty_env_def path_defs s2u_def)

theorem empty_directory_scan_witness:
  "lookup empty_env (os_path_abspath (cwd empty_env) (s2u ''/'')) = Some (Dir dir_stat [])
   \<and> main empty_env (s2u ''/'')
       = Inr \<lparr>total_stats = FileStats_init empty_env None None, all_file_details = [],
              folder_stats_map = []\<rparr>"
  using lookup_empty_root empty_directory_scan [OF lookup_empty_root] by blast

end
